theory Spec2Isabelle
  imports Main
begin

section \<open>Python values, strings and exceptions\<close>

text \<open>
  The service is one Python module, \<^verbatim>\<open>app.py\<close>. Python strings are modelled as
  \<^typ>\<open>string\<close>: a list of characters with code points below 256. Exceptions are values:
  a computation that may raise has type \<open>exn + 'a\<close>, with \<open>Inl\<close> the raised exception.
\<close>

datatype exn =
    RequestException string  \<comment> \<open>\<^verbatim>\<open>requests.exceptions.RequestException\<close> and subclasses, with \<^verbatim>\<open>str(e)\<close>\<close>
  | KeyError string          \<comment> \<open>\<^verbatim>\<open>KeyError(key)\<close>\<close>
  | ValueError string        \<comment> \<open>\<^verbatim>\<open>ValueError(msg)\<close>\<close>
  | Exception string         \<comment> \<open>any other subclass of \<^verbatim>\<open>Exception\<close>, with \<^verbatim>\<open>str(e)\<close>\<close>

text \<open>
  \<^verbatim>\<open>repr(s)\<close> of a string. The quote is the single quote, unless the string has a single
  quote and no double quote. The quote and the backslash are escaped with a backslash;
  tab, line feed and carriage return are written \<^verbatim>\<open>\t\<close>, \<^verbatim>\<open>\n\<close>, \<^verbatim>\<open>\r\<close>; every other
  character that is not printable (below U+0020, U+007F to U+00A0, U+00AD) is written
  \<^verbatim>\<open>\xNN\<close> with two lower-case hexadecimal digits.
\<close>

definition hex_digit :: "nat \<Rightarrow> char" where
  "hex_digit n = ''0123456789abcdef'' ! n"

definition repr_char :: "char \<Rightarrow> char \<Rightarrow> string" where
  "repr_char quote c =
     (let k = (of_char c :: nat)
      in if c = quote \<or> c = CHR 0x5C then [CHR 0x5C, c]
         else if k = 9 then [CHR 0x5C, CHR ''t'']
         else if k = 10 then [CHR 0x5C, CHR ''n'']
         else if k = 13 then [CHR 0x5C, CHR ''r'']
         else if k < 32 \<or> (127 \<le> k \<and> k \<le> 160) \<or> k = 173
           then [CHR 0x5C, CHR ''x'', hex_digit (k div 16), hex_digit (k mod 16)]
         else [c])"

definition py_repr :: "string \<Rightarrow> string" where
  "py_repr s =
     (let quote = (if CHR 0x27 \<in> set s \<and> CHR 0x22 \<notin> set s then CHR 0x22 else CHR 0x27)
      in [quote] @ concat (map (repr_char quote) s) @ [quote])"

text \<open>\<^verbatim>\<open>str(e)\<close>. For a \<^verbatim>\<open>KeyError\<close> it is the \<^verbatim>\<open>repr\<close> of the key.\<close>

fun str_exn :: "exn \<Rightarrow> string" where
  "str_exn (RequestException m) = m"
| "str_exn (KeyError k) = py_repr k"
| "str_exn (ValueError m) = m"
| "str_exn (Exception m) = m"

text \<open>\<^verbatim>\<open>isinstance(e, requests.exceptions.RequestException)\<close>\<close>

fun is_RequestException :: "exn \<Rightarrow> bool" where
  "is_RequestException (RequestException m) = True"
| "is_RequestException e = False"

text \<open>The values the program builds and hands to \<^verbatim>\<open>jsonify\<close>: strings, lists, dicts and
  \<^verbatim>\<open>None\<close>. A dict is an association list in insertion order.\<close>

datatype pyval =
    PyNone
  | PyStr string
  | PyList "pyval list"
  | PyDict "(string \<times> pyval) list"

type_synonym pydict = "(string \<times> pyval) list"

text \<open>\<^verbatim>\<open>key in d\<close>, \<^verbatim>\<open>d.keys()\<close> and \<^verbatim>\<open>d.get(key)\<close> on a dict.\<close>

definition key_in :: "string \<Rightarrow> pydict \<Rightarrow> bool" where
  "key_in k d = (k \<in> set (map fst d))"

definition keys :: "pydict \<Rightarrow> string list" where
  "keys d = map fst d"

definition dict_get :: "pydict \<Rightarrow> string \<Rightarrow> pyval option" where
  "dict_get d k = map_of d k"

text \<open>\<^verbatim>\<open>str.isspace\<close> on one character below U+0100, and \<^verbatim>\<open>str.strip()\<close>.\<close>

definition is_space :: "char \<Rightarrow> bool" where
  "is_space c =
     (let k = (of_char c :: nat)
      in (9 \<le> k \<and> k \<le> 13) \<or> (28 \<le> k \<and> k \<le> 32) \<or> k = 133 \<or> k = 160)"

definition strip :: "string \<Rightarrow> string" where
  "strip s = rev (dropWhile is_space (rev (dropWhile is_space s)))"

text \<open>\<^verbatim>\<open>s.startswith(p)\<close>\<close>

definition startswith :: "string \<Rightarrow> string \<Rightarrow> bool" where
  "startswith s p = (take (length p) s = p)"

text \<open>\<^verbatim>\<open>str(n)\<close> for an integer: its decimal digits.\<close>

definition digit_char :: "nat \<Rightarrow> char" where
  "digit_char n = ''0123456789'' ! n"

function str_nat :: "nat \<Rightarrow> string" where
  "str_nat n = (if n < 10 then [digit_char n] else str_nat (n div 10) @ [digit_char (n mod 10)])"
  by pat_completeness auto
termination
  by (relation "measure id") auto

declare str_nat.simps [simp del]

definition str_int :: "int \<Rightarrow> string" where
  "str_int i = (if i < 0 then ''-'' @ str_nat (nat (- i)) else str_nat (nat i))"

section \<open>The domain normalizer\<close>

text \<open>
  \<^verbatim>\<open>normalize_domain\<close> calls \<^verbatim>\<open>urllib.parse.urlparse\<close> and reads \<^verbatim>\<open>netloc\<close>. The
  part of \<^verbatim>\<open>urlsplit\<close> that computes \<^verbatim>\<open>netloc\<close> is modelled here, step by step:
  \<^enum> leading C0 control characters and spaces are stripped, then every tab, carriage
    return and line feed is removed;
  \<^enum> a scheme is split off when the text before the first colon is not empty, starts
    with an ASCII letter and consists of scheme characters;
  \<^enum> when the rest starts with \<^verbatim>\<open>//\<close>, \<^verbatim>\<open>netloc\<close> is what follows up to the first of
    \<^verbatim>\<open>/\<close>, \<^verbatim>\<open>?\<close>, \<^verbatim>\<open>#\<close>;
  \<^enum> a \<^verbatim>\<open>netloc\<close> with one square bracket and not the other raises
    \<^verbatim>\<open>ValueError("Invalid IPv6 URL")\<close>;
  \<^enum> a \<^verbatim>\<open>netloc\<close> with both brackets has the text between them validated as an IP
    literal. That validation (\<^verbatim>\<open>_check_bracketed_host\<close>, by the \<^verbatim>\<open>ipaddress\<close> module
    in recent Python versions, absent in older ones) is the parameter \<open>chk\<close>: the
    message of the \<^verbatim>\<open>ValueError\<close> it raises, or \<open>None\<close> when it accepts.

  The NFKC check of \<^verbatim>\<open>_checknetloc\<close> never raises on characters below U+0100 and is
  therefore no branch of the model.
\<close>

definition scheme_chars :: string where
  "scheme_chars = ''abcdefghijklmnopqrstuvwxyzABCDEFGHIJKLMNOPQRSTUVWXYZ0123456789+-.''"

definition ascii_letters :: string where
  "ascii_letters = ''abcdefghijklmnopqrstuvwxyzABCDEFGHIJKLMNOPQRSTUVWXYZ''"

definition is_c0_or_space :: "char \<Rightarrow> bool" where
  "is_c0_or_space c = ((of_char c :: nat) \<le> 32)"

definition unsafe_url_bytes :: string where
  "unsafe_url_bytes = [CHR 0x09, CHR 0x0D, CHR 0x0A]"

text \<open>The url left after the scheme has been split off (\<^verbatim>\<open>url[i+1:]\<close>), or the url
  itself when it has no scheme.\<close>

definition drop_scheme :: "string \<Rightarrow> string" where
  "drop_scheme url =
     (let i = length (takeWhile (\<lambda>c. c \<noteq> CHR '':'') url)
      in if CHR '':'' \<in> set url \<and> 0 < i \<and> hd url \<in> set ascii_letters
            \<and> list_all (\<lambda>c. c \<in> set scheme_chars) (take i url)
         then drop (i + 1) url
         else url)"

text \<open>\<^verbatim>\<open>_splitnetloc(url, 2)[0]\<close>\<close>

definition splitnetloc :: "string \<Rightarrow> string" where
  "splitnetloc url = takeWhile (\<lambda>c. c \<notin> set ''/?#'') (drop 2 url)"

text \<open>\<^verbatim>\<open>netloc.partition('[')[2].partition(']')[0]\<close>\<close>

definition bracketed_host :: "string \<Rightarrow> string" where
  "bracketed_host netloc =
     takeWhile (\<lambda>c. c \<noteq> CHR '']'') (drop 1 (dropWhile (\<lambda>c. c \<noteq> CHR ''['') netloc))"

definition urlparse_netloc :: "(string \<Rightarrow> string option) \<Rightarrow> string \<Rightarrow> exn + string" where
  "urlparse_netloc chk url0 =
     (let url1 = dropWhile is_c0_or_space url0;
          url2 = filter (\<lambda>c. c \<notin> set unsafe_url_bytes) url1;
          url3 = drop_scheme url2
      in if take 2 url3 = ''//'' then
           (let netloc = splitnetloc url3;
                lb = (CHR ''['' \<in> set netloc);
                rb = (CHR '']'' \<in> set netloc)
            in if (lb \<and> \<not> rb) \<or> (rb \<and> \<not> lb) then Inl (ValueError ''Invalid IPv6 URL'')
               else if lb \<and> rb then
                 (case chk (bracketed_host netloc) of
                    Some msg \<Rightarrow> Inl (ValueError msg)
                  | None \<Rightarrow> Inr netloc)
               else Inr netloc)
         else Inr '''')"

text \<open>
  \<^verbatim>\<open>
  def normalize_domain(url):
      if not url.startswith(("http://", "https://")):
          url = "https://" + url
      parsed_url = urlparse(url)
      domain = parsed_url.netloc
      if domain.startswith("www."):
          domain = domain[4:]
      return domain
  \<close>
  Nothing in the function catches the \<^verbatim>\<open>ValueError\<close> of \<^verbatim>\<open>urlparse\<close>.
\<close>

definition normalize_domain :: "(string \<Rightarrow> string option) \<Rightarrow> string \<Rightarrow> exn + string" where
  "normalize_domain chk url =
     (let url' = (if \<not> (startswith url ''http://'' \<or> startswith url ''https://'')
                  then ''https://'' @ url else url)
      in case urlparse_netloc chk url' of
           Inl e \<Rightarrow> Inl e
         | Inr domain \<Rightarrow>
             Inr (if startswith domain ''www.'' then drop 4 domain else domain))"

text \<open>An \<^verbatim>\<open>ipaddress\<close>-free \<^verbatim>\<open>urlsplit\<close> (older Python versions): every bracketed host is
  accepted.\<close>

definition accept_host :: "string \<Rightarrow> string option" where
  "accept_host h = None"

section \<open>The parsed document and the BeautifulSoup queries\<close>

text \<open>
  The tree that \<^verbatim>\<open>BeautifulSoup(text, "html.parser")\<close> builds: a tag with its name, its
  attributes (a dict from attribute name to the raw value) and its children; a text node;
  and \<open>Comment\<close> for the string nodes that \<^verbatim>\<open>get_text\<close> leaves out (comments, doctypes and
  other declarations).
\<close>

datatype node =
    Tag string "(string \<times> string) list" "node list"
  | NavigableString string
  | Comment string

fun contents :: "node \<Rightarrow> node list" where
  "contents (Tag n a cs) = cs"
| "contents (NavigableString s) = []"
| "contents (Comment s) = []"

fun attrs :: "node \<Rightarrow> (string \<times> string) list" where
  "attrs (Tag n a cs) = a"
| "attrs (NavigableString s) = []"
| "attrs (Comment s) = []"

text \<open>The node is a tag of the given name.\<close>

fun is_tag :: "string \<Rightarrow> node \<Rightarrow> bool" where
  "is_tag name (Tag n a cs) = (n = name)"
| "is_tag name (NavigableString s) = False"
| "is_tag name (Comment s) = False"

text \<open>\<^verbatim>\<open>tag.descendants\<close>: every node below the tag, in document order.\<close>

fun descendants :: "node \<Rightarrow> node list" where
  "descendants (Tag n a cs) = concat (map (\<lambda>c. c # descendants c) cs)"
| "descendants (NavigableString s) = []"
| "descendants (Comment s) = []"

text \<open>The nodes of a forest in document order, each with its following siblings.\<close>

fun elements :: "node list \<Rightarrow> (node \<times> node list) list" where
  "elements [] = []"
| "elements (Tag n a cs # ns) = (Tag n a cs, ns) # elements cs @ elements ns"
| "elements (NavigableString s # ns) = (NavigableString s, ns) # elements ns"
| "elements (Comment s # ns) = (Comment s, ns) # elements ns"

text \<open>\<^verbatim>\<open>tag.string\<close>: the single string below a tag, through any chain of only children;
  \<open>None\<close> when some tag on the way has no child or several. The library follows the chain
  by recursion, one call for each level; the model is of documents whose chains of only
  children are shorter than the recursion limit of the interpreter.\<close>

fun tag_string :: "node \<Rightarrow> string option" where
  "tag_string (Tag n a []) = None"
| "tag_string (Tag n a [c]) = tag_string c"
| "tag_string (Tag n a (c # d # cs)) = None"
| "tag_string (NavigableString s) = Some s"
| "tag_string (Comment s) = Some s"

text \<open>\<^verbatim>\<open>tag.text\<close>: the text nodes below the tag, concatenated.\<close>

fun get_text :: "node \<Rightarrow> string" where
  "get_text (Tag n a cs) = concat (map get_text cs)"
| "get_text (NavigableString s) = s"
| "get_text (Comment s) = []"

text \<open>\<^verbatim>\<open>tag[key]\<close>: the attribute, or \<^verbatim>\<open>KeyError(key)\<close>.\<close>

definition getitem :: "node \<Rightarrow> string \<Rightarrow> exn + string" where
  "getitem t key = (case map_of (attrs t) key of None \<Rightarrow> Inl (KeyError key) | Some v \<Rightarrow> Inr v)"

text \<open>\<^verbatim>\<open>tag.find(name)\<close> and \<^verbatim>\<open>tag.find_all(name)\<close>: the first, and all, descendant tags
  of that name.\<close>

definition find_tag :: "string \<Rightarrow> node \<Rightarrow> node option" where
  "find_tag name t = List.find (is_tag name) (descendants t)"

definition find_all :: "string \<Rightarrow> node \<Rightarrow> node list" where
  "find_all name t = filter (is_tag name) (descendants t)"

text \<open>A found element with what the navigation from it needs: its following siblings
  (\<^verbatim>\<open>next_siblings\<close>) and everything after it in document order (\<^verbatim>\<open>next_elements\<close>, which
  starts with its own descendants).\<close>

datatype element = Element (the_node: node) (next_siblings: "node list") (next_elements: "node list")

fun first_element :: "(node \<Rightarrow> bool) \<Rightarrow> (node \<times> node list) list \<Rightarrow> element option" where
  "first_element P [] = None"
| "first_element P ((n, sibs) # rest) =
     (if P n then Some (Element n sibs (map fst rest)) else first_element P rest)"

text \<open>\<^verbatim>\<open>soup.find(name, string=s)\<close>: the first tag of that name whose \<^verbatim>\<open>.string\<close> equals
  \<open>s\<close> (a non-empty \<open>s\<close>: a tag with no \<^verbatim>\<open>.string\<close> does not match).\<close>

definition find_string :: "string \<Rightarrow> string \<Rightarrow> node \<Rightarrow> element option" where
  "find_string name s soup =
     first_element (\<lambda>n. is_tag name n \<and> tag_string n = Some s) (elements (contents soup))"

text \<open>\<^verbatim>\<open>el.find_next_sibling(name)\<close> and \<^verbatim>\<open>el.find_next(name)\<close>\<close>

definition find_next_sibling :: "string \<Rightarrow> element \<Rightarrow> node option" where
  "find_next_sibling name el = List.find (is_tag name) (next_siblings el)"

definition find_next :: "string \<Rightarrow> element \<Rightarrow> node option" where
  "find_next name el = List.find (is_tag name) (next_elements el)"

text \<open>The values of a \<^verbatim>\<open>class\<close> attribute: the parser stores the maximal runs of
  non-whitespace characters (\<^verbatim>\<open>\S+\<close>) as a list.\<close>

fun split_ws :: "string \<Rightarrow> string \<Rightarrow> string list" where
  "split_ws cur [] = (if cur = [] then [] else [cur])"
| "split_ws cur (c # cs) =
     (if is_space c then (if cur = [] then split_ws [] cs else cur # split_ws [] cs)
      else split_ws (cur @ [c]) cs)"

fun join_sp :: "string list \<Rightarrow> string" where
  "join_sp [] = []"
| "join_sp [w] = w"
| "join_sp (w # v # ws) = w @ '' '' @ join_sp (v # ws)"

text \<open>\<^verbatim>\<open>soup.find(name, class_=c)\<close>: the first tag of that name with \<open>c\<close> among its
  classes, or with exactly \<open>c\<close> as its whole class string.\<close>

definition has_class :: "string \<Rightarrow> node \<Rightarrow> bool" where
  "has_class c t =
     (case map_of (attrs t) ''class'' of
        None \<Rightarrow> False
      | Some v \<Rightarrow> c \<in> set (split_ws [] v) \<or> join_sp (split_ws [] v) = c)"

definition find_class :: "string \<Rightarrow> string \<Rightarrow> node \<Rightarrow> node option" where
  "find_class name c soup = List.find (\<lambda>n. is_tag name n \<and> has_class c n) (descendants soup)"

section \<open>The extractor\<close>

text \<open>
  What the module gets from outside: the outcome of
  \<^verbatim>\<open>requests.get(url, headers=headers, timeout=30)\<close> (the headers and the timeout are
  constants of the program), the outcome of the HTML parser on the response text (the
  top-level nodes of the tree it builds, or the exception it raises when it rejects the
  markup), and the host validation of \<^verbatim>\<open>urlsplit\<close>.
\<close>

datatype upstream =
    Upstream_response int string   \<comment> \<open>\<^verbatim>\<open>status_code\<close> and \<^verbatim>\<open>text\<close>\<close>
  | Upstream_raises exn

record lib =
  requests_get :: "string \<Rightarrow> upstream"
  html_parser :: "string \<Rightarrow> exn + node list"
  check_bracketed_host :: "string \<Rightarrow> string option"

text \<open>\<^verbatim>\<open>BeautifulSoup(text, "html.parser")\<close>: the document object, a tag whose contents
  are the top-level nodes; or the exception of a parser that rejects the markup.\<close>

definition BeautifulSoup :: "lib \<Rightarrow> string \<Rightarrow> exn + node" where
  "BeautifulSoup l text =
     (case html_parser l text of
        Inl e \<Rightarrow> Inl e
      | Inr nodes \<Rightarrow> Inr (Tag ''[document]'' [] nodes))"

definition fetch_url :: "string \<Rightarrow> string" where
  "fetch_url domain = ''https://tools.trafficthinktank.com/website-traffic-checker?q='' @ domain"

text \<open>
  \<^verbatim>\<open>
  def extract_metric(metric_name):
      metric_section = soup.find("p", string=metric_name)
      if metric_section:
          value_tag = metric_section.find_next_sibling("p")
          if value_tag and value_tag.find("a"):
              return value_tag.find("a").text.strip()
      return "Not Found"
  \<close>
  A tag is always truthy, so each \<^verbatim>\<open>if\<close> tests that the search found something.
\<close>

definition extract_metric :: "node \<Rightarrow> string \<Rightarrow> string" where
  "extract_metric soup metric_name =
     (case find_string ''p'' metric_name soup of
        None \<Rightarrow> ''Not Found''
      | Some metric_section \<Rightarrow>
          (case find_next_sibling ''p'' metric_section of
             None \<Rightarrow> ''Not Found''
           | Some value_tag \<Rightarrow>
               (case find_tag ''a'' value_tag of
                  None \<Rightarrow> ''Not Found''
                | Some a \<Rightarrow> strip (get_text a))))"

text \<open>The rows of the table after a heading: \<^verbatim>\<open>soup.find("h3", string=heading)\<close>, then
  \<^verbatim>\<open>find_next("table")\<close>, then \<^verbatim>\<open>find_all("tr")[1:]\<close>. No heading or no table leaves the
  loop unentered.\<close>

definition section_rows :: "node \<Rightarrow> string \<Rightarrow> node list" where
  "section_rows soup heading =
     (case find_string ''h3'' heading soup of
        None \<Rightarrow> []
      | Some section \<Rightarrow>
          (case find_next ''table'' section of
             None \<Rightarrow> []
           | Some table \<Rightarrow> drop 1 (find_all ''tr'' table)))"

text \<open>\<^verbatim>\<open>cols[i].text.strip()\<close>\<close>

definition col_text :: "node list \<Rightarrow> nat \<Rightarrow> string" where
  "col_text cols i = strip (get_text (cols ! i))"

text \<open>
  The body of the backlinks loop, for one row:
  \<^verbatim>\<open>
  cols = row.find_all("td")
  if len(cols) >= 4:
      source_url = cols[0].find("a")["href"].strip() if cols[0].find("a") else "N/A"
      target_url = cols[0].find_all("a")[-1]["href"].strip() if cols[0].find_all("a") else "N/A"
      anchor_text = cols[1].text.strip()
      follow_type = cols[2].text.strip()
      backlinks.append({...})
  \<close>
  Subscripting an anchor that has no \<^verbatim>\<open>href\<close> raises \<^verbatim>\<open>KeyError\<close>.
\<close>

definition backlinks_source_url :: "node \<Rightarrow> exn + string" where
  "backlinks_source_url col =
     (case find_tag ''a'' col of
        Some a \<Rightarrow> (case getitem a ''href'' of Inl e \<Rightarrow> Inl e | Inr h \<Rightarrow> Inr (strip h))
      | None \<Rightarrow> Inr ''N/A'')"

definition backlinks_target_url :: "node \<Rightarrow> exn + string" where
  "backlinks_target_url col =
     (if find_all ''a'' col \<noteq> []
      then (case getitem (last (find_all ''a'' col)) ''href'' of
              Inl e \<Rightarrow> Inl e
            | Inr h \<Rightarrow> Inr (strip h))
      else Inr ''N/A'')"

definition backlinks_body :: "node \<Rightarrow> pyval list \<Rightarrow> exn + pyval list" where
  "backlinks_body row backlinks =
     (let cols = find_all ''td'' row
      in if 4 \<le> length cols then
           (case backlinks_source_url (cols ! 0) of
              Inl e \<Rightarrow> Inl e
            | Inr source_url \<Rightarrow>
                (case backlinks_target_url (cols ! 0) of
                   Inl e \<Rightarrow> Inl e
                 | Inr target_url \<Rightarrow>
                     Inr (backlinks @
                       [PyDict [(''source_url'', PyStr source_url),
                                (''target_url'', PyStr target_url),
                                (''anchor_text'', PyStr (col_text cols 1)),
                                (''follow_type'', PyStr (col_text cols 2))]])))
         else Inr backlinks)"

text \<open>A \<^verbatim>\<open>for\<close> loop whose body may raise: the first exception ends the loop.\<close>

fun for_rows :: "(node \<Rightarrow> 's \<Rightarrow> exn + 's) \<Rightarrow> node list \<Rightarrow> 's \<Rightarrow> exn + 's" where
  "for_rows f [] s = Inr s"
| "for_rows f (row # rows) s =
     (case f row s of Inl e \<Rightarrow> Inl e | Inr s' \<Rightarrow> for_rows f rows s')"

definition extract_backlinks :: "node \<Rightarrow> exn + pyval list" where
  "extract_backlinks soup = for_rows backlinks_body (section_rows soup ''Backlinks'') []"

text \<open>
  The body of the top-pages loop:
  \<^verbatim>\<open>
  cols = row.find_all("td")
  if len(cols) >= 3:
      page_url = cols[0].find("a").text.strip() if cols[0].find("a") else cols[0].text.strip()
      traffic_percentage = cols[1].text.strip()
      keywords = cols[2].text.strip()
      top_pages.append({...})
  \<close>
\<close>

definition top_pages_body :: "node \<Rightarrow> pyval list \<Rightarrow> pyval list" where
  "top_pages_body row top_pages =
     (let cols = find_all ''td'' row
      in if 3 \<le> length cols then
           top_pages @
             [PyDict [(''page_url'', PyStr (case find_tag ''a'' (cols ! 0) of
                                              Some a \<Rightarrow> strip (get_text a)
                                            | None \<Rightarrow> col_text cols 0)),
                      (''traffic_percentage'', PyStr (col_text cols 1)),
                      (''keywords'', PyStr (col_text cols 2))]]
         else top_pages)"

definition extract_top_pages :: "node \<Rightarrow> pyval list" where
  "extract_top_pages soup =
     foldl (\<lambda>acc row. top_pages_body row acc) [] (section_rows soup ''Top Pages'')"

text \<open>
  The body of the competitors loop. It assigns to the variable \<^verbatim>\<open>domain\<close>, which is the
  parameter of \<^verbatim>\<open>get_seo_data\<close>; the loop state is that variable and the list.
  \<^verbatim>\<open>
  cols = row.find_all("td")
  if len(cols) >= 3:
      domain = cols[0].text.strip()
      com_keywords = cols[1].text.strip()
      com_level = cols[2].text.strip()
      competitors.append({"domain": domain, ...})
  \<close>
\<close>

definition competitors_body :: "node \<Rightarrow> string \<times> pyval list \<Rightarrow> string \<times> pyval list" where
  "competitors_body row st =
     (let cols = find_all ''td'' row
      in if 3 \<le> length cols then
           (let domain = col_text cols 0
            in (domain,
                snd st @
                  [PyDict [(''domain'', PyStr domain),
                           (''common_keywords'', PyStr (col_text cols 1)),
                           (''competition_level'', PyStr (col_text cols 2))]]))
         else st)"

definition extract_competitors :: "node \<Rightarrow> string \<Rightarrow> string \<times> pyval list" where
  "extract_competitors soup domain =
     foldl (\<lambda>st row. competitors_body row st) (domain, [])
       (section_rows soup ''Main Organic Competitors'')"

text \<open>
  The keyword table is \<^verbatim>\<open>soup.find("div", class_="table")\<close>; its rows after the first
  need eight columns.
\<close>

definition top_keywords_body :: "node \<Rightarrow> pyval list \<Rightarrow> pyval list" where
  "top_keywords_body row top_keywords =
     (let cols = find_all ''td'' row
      in if 8 \<le> length cols then
           top_keywords @
             [PyDict [(''keyword'', PyStr (col_text cols 0)),
                      (''rank'', PyStr (col_text cols 1)),
                      (''traffic_percentage'', PyStr (col_text cols 2)),
                      (''volume'', PyStr (col_text cols 3)),
                      (''kd_percentage'', PyStr (col_text cols 4)),
                      (''cpc'', PyStr (col_text cols 5)),
                      (''num_results'', PyStr (col_text cols 6)),
                      (''search_trend'', PyStr (col_text cols 7))]]
         else top_keywords)"

definition extract_top_keywords :: "node \<Rightarrow> pyval list" where
  "extract_top_keywords soup =
     (case find_class ''div'' ''table'' soup of
        None \<Rightarrow> []
      | Some keyword_table \<Rightarrow>
          foldl (\<lambda>acc row. top_keywords_body row acc) [] (drop 1 (find_all ''tr'' keyword_table)))"

definition extract_metrics :: "node \<Rightarrow> pydict" where
  "extract_metrics soup =
     [(''organic_traffic'', PyStr (extract_metric soup ''Organic Search Traffic'')),
      (''traffic_value'', PyStr (extract_metric soup ''Traffic Value'')),
      (''authority_score'', PyStr (extract_metric soup ''Authority Score'')),
      (''visits'', PyStr (extract_metric soup ''Visits'')),
      (''pages_per_visit'', PyStr (extract_metric soup ''Pages / Visit'')),
      (''avg_visit_duration'', PyStr (extract_metric soup ''Avg. Visit Duration'')),
      (''bounce_rate'', PyStr (extract_metric soup ''Bounce Rate'')),
      (''total_referring_domains'', PyStr (extract_metric soup ''Total Referring Domains'')),
      (''ranking_keywords'', PyStr (extract_metric soup ''Ranking Keywords''))]"

text \<open>Lines 45 to 169 of \<^verbatim>\<open>get_seo_data\<close>: from the parsed document to the result dict,
  in the order of the source. The \<^verbatim>\<open>domain\<close> stored in the result is the variable as
  the competitors loop leaves it.\<close>

definition build_result :: "node \<Rightarrow> string \<Rightarrow> exn + pydict" where
  "build_result soup domain =
     (let metrics = extract_metrics soup
      in case extract_backlinks soup of
           Inl e \<Rightarrow> Inl e
         | Inr backlinks \<Rightarrow>
             (let top_pages = extract_top_pages soup;
                  dc = extract_competitors soup domain;
                  top_keywords = extract_top_keywords soup
              in Inr [(''domain'', PyStr (fst dc)),
                      (''metrics'', PyDict metrics),
                      (''top_keywords'', PyList top_keywords),
                      (''backlinks'', PyList backlinks),
                      (''competitors'', PyList (snd dc)),
                      (''top_pages'', PyList top_pages)]))"

text \<open>The \<^verbatim>\<open>try\<close> block of \<^verbatim>\<open>get_seo_data\<close>: \<open>Inl\<close> is an exception raised inside it,
  \<open>Inr\<close> one of its two \<^verbatim>\<open>return\<close> statements.\<close>

definition get_seo_data_try :: "lib \<Rightarrow> string \<Rightarrow> exn + (pydict \<times> pyval)" where
  "get_seo_data_try l domain =
     (case requests_get l (fetch_url domain) of
        Upstream_raises e \<Rightarrow> Inl e
      | Upstream_response status_code text \<Rightarrow>
          if status_code \<noteq> 200 then
            Inr ([(''error'',
                   PyStr (''Failed to retrieve the page. Status Code: '' @ str_int status_code))],
                 PyNone)
          else
            (case BeautifulSoup l text of
               Inl e \<Rightarrow> Inl e
             | Inr soup \<Rightarrow>
                 (case build_result soup domain of
                    Inl e \<Rightarrow> Inl e
                  | Inr result \<Rightarrow> Inr (result, PyNone))))"

text \<open>
  \<^verbatim>\<open>
  except requests.exceptions.RequestException as e:
      return {"error": f"Request failed: {str(e)}"}, None
  except Exception as e:
      return {"error": f"An error occurred: {str(e)}"}, None
  \<close>
  The result keeps the type \<open>exn + _\<close>: an exception leaving \<^verbatim>\<open>get_seo_data\<close> would be
  \<open>Inl\<close>.
\<close>

definition get_seo_data :: "lib \<Rightarrow> string \<Rightarrow> exn + (pydict \<times> pyval)" where
  "get_seo_data l domain =
     (case get_seo_data_try l domain of
        Inr r \<Rightarrow> Inr r
      | Inl e \<Rightarrow>
          if is_RequestException e
          then Inr ([(''error'', PyStr (''Request failed: '' @ str_exn e))], PyNone)
          else Inr ([(''error'', PyStr (''An error occurred: '' @ str_exn e))], PyNone))"

section \<open>The endpoint\<close>

text \<open>
  \<^verbatim>\<open>
  def fetch_seo_data():
      url = request.args.get('url', '')
      if not url:
          return jsonify({"error": "No URL provided. Please include a 'url' parameter."}), 400
      domain = normalize_domain(url)
      data, _ = get_seo_data(domain)
      if "error" in data:
          return jsonify(data), 500
      return jsonify(data)
  \<close>
  The query string is a list of name and value pairs; a response is a status and a JSON
  body. The view returns the calls it made to the two functions of the module, in order,
  with its result; an exception that leaves the view is \<open>Inl\<close>.
\<close>

definition args_get :: "(string \<times> string) list \<Rightarrow> string \<Rightarrow> string \<Rightarrow> string" where
  "args_get args k d = (case map_of args k of Some v \<Rightarrow> v | None \<Rightarrow> d)"

datatype response = Response (status: nat) (body: pyval)

datatype call = Call_normalize_domain string | Call_get_seo_data string

definition fetch_seo_data :: "lib \<Rightarrow> (string \<times> string) list \<Rightarrow> call list \<times> (exn + response)" where
  "fetch_seo_data l args =
     (let url = args_get args ''url'' []
      in if url = [] then
           ([], Inr (Response 400
                  (PyDict [(''error'', PyStr ''No URL provided. Please include a 'url' parameter.'')])))
         else
           (case normalize_domain (check_bracketed_host l) url of
              Inl e \<Rightarrow> ([Call_normalize_domain url], Inl e)
            | Inr domain \<Rightarrow>
                (case get_seo_data l domain of
                   Inl e \<Rightarrow> ([Call_normalize_domain url, Call_get_seo_data domain], Inl e)
                 | Inr (data, u) \<Rightarrow>
                     ([Call_normalize_domain url, Call_get_seo_data domain],
                      Inr (if key_in ''error'' data then Response 500 (PyDict data)
                           else Response 200 (PyDict data))))))"

section \<open>Terms of the specification\<close>

text \<open>The nine metric labels, and a document that has none of them: no \<^verbatim>\<open>p\<close> element whose
  string is a metric name.\<close>

definition metric_names :: "string list" where
  "metric_names =
     [''Organic Search Traffic'', ''Traffic Value'', ''Authority Score'', ''Visits'',
      ''Pages / Visit'', ''Avg. Visit Duration'', ''Bounce Rate'', ''Total Referring Domains'',
      ''Ranking Keywords'']"

text \<open>The nine metric fields of a report, each with the label it is read from.\<close>

definition metric_fields :: "(string \<times> string) list" where
  "metric_fields =
     [(''organic_traffic'', ''Organic Search Traffic''),
      (''traffic_value'', ''Traffic Value''),
      (''authority_score'', ''Authority Score''),
      (''visits'', ''Visits''),
      (''pages_per_visit'', ''Pages / Visit''),
      (''avg_visit_duration'', ''Avg. Visit Duration''),
      (''bounce_rate'', ''Bounce Rate''),
      (''total_referring_domains'', ''Total Referring Domains''),
      (''ranking_keywords'', ''Ranking Keywords'')]"

definition no_metric_labels :: "node \<Rightarrow> bool" where
  "no_metric_labels soup = list_all (\<lambda>name. find_string ''p'' name soup = None) metric_names"

text \<open>A document with none of the three table headings and no keyword table.\<close>

definition no_table_sections :: "node \<Rightarrow> bool" where
  "no_table_sections soup =
     (list_all (\<lambda>heading. find_string ''h3'' heading soup = None)
        [''Backlinks'', ''Top Pages'', ''Main Organic Competitors'']
      \<and> find_class ''div'' ''table'' soup = None)"

text \<open>The metrics of a report in which nothing was found.\<close>

definition metrics_not_found :: pydict where
  "metrics_not_found =
     [(''organic_traffic'', PyStr ''Not Found''),
      (''traffic_value'', PyStr ''Not Found''),
      (''authority_score'', PyStr ''Not Found''),
      (''visits'', PyStr ''Not Found''),
      (''pages_per_visit'', PyStr ''Not Found''),
      (''avg_visit_duration'', PyStr ''Not Found''),
      (''bounce_rate'', PyStr ''Not Found''),
      (''total_referring_domains'', PyStr ''Not Found''),
      (''ranking_keywords'', PyStr ''Not Found'')]"

text \<open>The six keys of a report.\<close>

definition report_keys :: "string list" where
  "report_keys = [''domain'', ''metrics'', ''top_keywords'', ''backlinks'', ''competitors'', ''top_pages'']"

text \<open>The \<^verbatim>\<open>href\<close> of an anchor, when it has one.\<close>

definition href_of :: "node \<Rightarrow> string option" where
  "href_of a = map_of (attrs a) ''href''"

text \<open>A backlinks row that the loop reads an \<^verbatim>\<open>href\<close> from and that has none there: at
  least four columns, an anchor in the first, and the first or the last anchor of that
  column without the attribute.\<close>

definition href_missing :: "node \<Rightarrow> bool" where
  "href_missing row =
     (let cols = find_all ''td'' row; anchors = find_all ''a'' (cols ! 0)
      in 4 \<le> length cols \<and> anchors \<noteq> []
         \<and> (href_of (hd anchors) = None \<or> href_of (last anchors) = None))"

text \<open>The extractor succeeds: the upstream answers 200, the parser accepts the text and
  nothing raises while the document is read.\<close>

definition extractor_succeeds :: "lib \<Rightarrow> string \<Rightarrow> bool" where
  "extractor_succeeds l domain =
     (case requests_get l (fetch_url domain) of
        Upstream_raises e \<Rightarrow> False
      | Upstream_response status_code text \<Rightarrow>
          status_code = 200
          \<and> (case BeautifulSoup l text of
                 Inl e \<Rightarrow> False
               | Inr soup \<Rightarrow> \<not> isl (build_result soup domain)))"

text \<open>A BacklinkRow with its four fields.\<close>

definition backlink_row :: "string \<Rightarrow> string \<Rightarrow> string \<Rightarrow> string \<Rightarrow> pyval" where
  "backlink_row source_url target_url anchor_text follow_type =
     PyDict [(''source_url'', PyStr source_url),
             (''target_url'', PyStr target_url),
             (''anchor_text'', PyStr anchor_text),
             (''follow_type'', PyStr follow_type)]"

text \<open>What a row of the backlinks table contributes to the list: the rows the loop body
  appends when it starts from the empty list, and nothing when it raises.\<close>

definition row_emits :: "node \<Rightarrow> pyval list" where
  "row_emits row = (case backlinks_body row [] of Inr ds \<Rightarrow> ds | Inl e \<Rightarrow> [])"

section \<open>Example documents\<close>

text \<open>An upstream that answers every request with the same status and an empty text, and
  a parser that yields the same tree for every text.\<close>

definition static_lib :: "int \<Rightarrow> node list \<Rightarrow> lib" where
  "static_lib code doc =
     \<lparr>requests_get = (\<lambda>url. Upstream_response code []),
      html_parser = (\<lambda>text. Inr doc),
      check_bracketed_host = accept_host\<rparr>"

text \<open>An upstream that answers 200 with a text the parser rejects.\<close>

definition rejecting_lib :: lib where
  "rejecting_lib =
     \<lparr>requests_get = (\<lambda>url. Upstream_response 200 ''<![x]>''),
      html_parser = (\<lambda>text. Inl (Exception ''expected name token'')),
      check_bracketed_host = accept_host\<rparr>"

definition td :: "string \<Rightarrow> node" where
  "td s = Tag ''td'' [] [NavigableString s]"

definition header_row :: node where
  "header_row = Tag ''tr'' [] [Tag ''th'' [] [NavigableString ''Column'']]"

text \<open>A competitors table with one row.\<close>

definition competitors_doc :: "node list" where
  "competitors_doc =
     [Tag ''h3'' [] [NavigableString ''Main Organic Competitors''],
      Tag ''table'' []
        [header_row, Tag ''tr'' [] [td ''rival.com'', td ''10'', td ''High'']]]"

text \<open>A backlinks row whose only anchor has no \<^verbatim>\<open>href\<close>, and a document with it.\<close>

definition nohref_row :: node where
  "nohref_row =
     Tag ''tr'' []
       [Tag ''td'' [] [Tag ''a'' [(''name'', ''top'')] [NavigableString ''source'']],
        td ''anchor'', td ''follow'', td ''2024'']"

definition nohref_doc :: "node list" where
  "nohref_doc =
     [Tag ''h3'' [] [NavigableString ''Backlinks''], Tag ''table'' [] [header_row, nohref_row]]"

text \<open>Backlinks rows: one anchor, two anchors, no anchor, and too few columns.\<close>

definition one_anchor_row :: node where
  "one_anchor_row =
     Tag ''tr'' []
       [Tag ''td'' [] [Tag ''a'' [(''href'', '' https://a.example/post '')] [NavigableString ''a'']],
        td '' click here '', td ''follow'', td ''2024'']"

definition two_anchor_row :: node where
  "two_anchor_row =
     Tag ''tr'' []
       [Tag ''td'' []
          [Tag ''a'' [(''href'', ''https://a.example/'')] [NavigableString ''a''],
           Tag ''a'' [(''href'', ''https://b.example/'')] [NavigableString ''b'']],
        td ''text'', td ''nofollow'', td ''2024'']"

definition no_anchor_row :: node where
  "no_anchor_row = Tag ''tr'' [] [td ''plain'', td ''text'', td ''follow'', td ''2024'']"

definition short_row :: node where
  "short_row = Tag ''tr'' [] [td ''one'', td ''two'', td ''three'']"

definition backlinks_doc :: "node list" where
  "backlinks_doc =
     [Tag ''h3'' [] [NavigableString ''Backlinks''],
      Tag ''table'' [] [header_row, one_anchor_row, short_row, two_anchor_row, no_anchor_row]]"

text \<open>A keyword table and nothing else.\<close>

definition keywords_doc :: "node list" where
  "keywords_doc =
     [Tag ''div'' [(''class'', ''table'')]
        [header_row,
         Tag ''tr'' [] [td ''seo'', td ''1'', td ''50%'', td ''900'', td ''40'', td ''1.2'', td ''7M'', td ''up'']]]"

text \<open>A page with one metric, and a page with nothing the extractor looks for.\<close>

definition metric_doc :: "node list" where
  "metric_doc =
     [Tag ''p'' [] [NavigableString ''Visits''],
      NavigableString '' '',
      Tag ''p'' [] [Tag ''a'' [(''href'', ''#'')] [NavigableString '' 1.2M '']]]"

definition plain_doc :: "node list" where
  "plain_doc = [Tag ''p'' [] [NavigableString ''Nothing to see'']]"

section \<open>The normalizer: examples and totality\<close>






lemmas normalize_defs =
  normalize_domain_def urlparse_netloc_def startswith_def drop_scheme_def splitnetloc_def
  is_c0_or_space_def unsafe_url_bytes_def ascii_letters_def scheme_chars_def

lemma normalize_www_example: "normalize_domain chk ''www.example.com'' = Inr ''example.com''"
  by (simp add: normalize_defs)

lemma get_seo_data_returns: "\<exists>data. get_seo_data l domain = Inr (data, PyNone)"
  by (auto simp: get_seo_data_def get_seo_data_try_def split: sum.splits upstream.splits)

lemma static_lib_simps [simp]:
  "requests_get (static_lib code doc) url = Upstream_response code []"
  "html_parser (static_lib code doc) text = Inr doc"
  "BeautifulSoup (static_lib code doc) text = Inr (Tag ''[document]'' [] doc)"
  "check_bracketed_host (static_lib code doc) = accept_host"
  by (simp_all add: static_lib_def BeautifulSoup_def)

text \<open>
  C7. \<^verbatim>\<open>normalize_domain\<close> maps \<^verbatim>\<open>www.example.com\<close>, \<^verbatim>\<open>https://www.example.com/path\<close> and
  \<^verbatim>\<open>example.com\<close> to \<^verbatim>\<open>example.com\<close>, and \<^verbatim>\<open>http://Sub.Example.com\<close> to
  \<^verbatim>\<open>Sub.Example.com\<close>: the case of the host is kept. This holds whatever the validation of
  bracketed hosts does.
\<close>

theorem normalize_domain_examples:
  "normalize_domain chk ''www.example.com'' = Inr ''example.com''
   \<and> normalize_domain chk ''https://www.example.com/path'' = Inr ''example.com''
   \<and> normalize_domain chk ''example.com'' = Inr ''example.com''
   \<and> normalize_domain chk ''http://Sub.Example.com'' = Inr ''Sub.Example.com''"
  by (simp add: normalize_defs)




section \<open>The endpoint without a url\<close>

text \<open>
  C6. A request without a \<^verbatim>\<open>url\<close> parameter is answered with status 400 and the fixed
  error body; the view has then called neither \<^verbatim>\<open>normalize_domain\<close> nor
  \<^verbatim>\<open>get_seo_data\<close>.
\<close>

theorem missing_url_is_400:
  assumes "map_of args ''url'' = None"
  shows "fetch_seo_data l args =
           ([], Inr (Response 400
                  (PyDict [(''error'', PyStr ''No URL provided. Please include a 'url' parameter.'')])))"
  using assms by (simp add: fetch_seo_data_def args_get_def)

theorem missing_url_is_400_witness:
  "map_of [(''domain'', ''example.com'')] ''url'' = None
   \<and> fetch_seo_data (static_lib 200 plain_doc) [(''domain'', ''example.com'')] =
       ([], Inr (Response 400
              (PyDict [(''error'', PyStr ''No URL provided. Please include a 'url' parameter.'')])))"
proof -
  have h: "map_of [(''domain'', ''example.com'')] ''url'' = None"
    by simp
  show ?thesis
    using h missing_url_is_400 [OF h, of "static_lib 200 plain_doc"] by simp
qed

section \<open>The upstream status\<close>

lemma str_int_404: "str_int 404 = ''404''"
  by code_simp

text \<open>
  C5. When the fetch returns a status other than 200, \<^verbatim>\<open>get_seo_data\<close> returns the error
  payload with that status code in decimal and nothing else, and the endpoint answers
  any request that led to this fetch with status 500 and that payload.
\<close>

theorem upstream_non_200:
  assumes "requests_get l (fetch_url domain) = Upstream_response code text"
    and "code \<noteq> 200"
  shows "get_seo_data l domain =
           Inr ([(''error'', PyStr (''Failed to retrieve the page. Status Code: '' @ str_int code))],
                PyNone)
         \<and> (\<forall>args url.
               args_get args ''url'' [] = url \<and> url \<noteq> []
               \<and> normalize_domain (check_bracketed_host l) url = Inr domain \<longrightarrow>
               snd (fetch_seo_data l args) =
                 Inr (Response 500
                   (PyDict [(''error'',
                      PyStr (''Failed to retrieve the page. Status Code: '' @ str_int code))])))"
proof -
  have g: "get_seo_data l domain =
           Inr ([(''error'', PyStr (''Failed to retrieve the page. Status Code: '' @ str_int code))],
                PyNone)"
    using assms by (simp add: get_seo_data_def get_seo_data_try_def)
  then show ?thesis
    by (simp add: fetch_seo_data_def Let_def key_in_def)
qed

theorem upstream_non_200_witness:
  "requests_get (static_lib 404 plain_doc) (fetch_url ''example.com'') = Upstream_response 404 []
   \<and> (404 :: int) \<noteq> 200
   \<and> get_seo_data (static_lib 404 plain_doc) ''example.com'' =
       Inr ([(''error'', PyStr ''Failed to retrieve the page. Status Code: 404'')], PyNone)
   \<and> snd (fetch_seo_data (static_lib 404 plain_doc) [(''url'', ''www.example.com'')]) =
       Inr (Response 500
         (PyDict [(''error'', PyStr ''Failed to retrieve the page. Status Code: 404'')]))"
proof -
  have r: "requests_get (static_lib 404 plain_doc) (fetch_url ''example.com'')
             = Upstream_response 404 []"
    by simp
  have c: "(404 :: int) \<noteq> 200"
    by simp
  have u: "args_get [(''url'', ''www.example.com'')] ''url'' [] = ''www.example.com''"
    by (simp add: args_get_def)
  have n: "normalize_domain (check_bracketed_host (static_lib 404 plain_doc)) ''www.example.com''
             = Inr ''example.com''"
    by (simp add: normalize_www_example)
  show ?thesis
    using r c u n upstream_non_200 [OF r c] by (simp add: str_int_404)
qed

section \<open>The domain of the report\<close>

text \<open>
  C1 fails on the code: the competitors loop assigns each competitor's name to the
  variable \<^verbatim>\<open>domain\<close>, and the report is built from that variable afterwards. For the
  domain \<^verbatim>\<open>example.com\<close> and a page whose competitors table has the one row
  \<^verbatim>\<open>rival.com\<close>, the report says \<^verbatim>\<open>rival.com\<close>.
\<close>

theorem report_domain_overwritten:
  "get_seo_data (static_lib 200 competitors_doc) ''example.com'' =
     Inr ([(''domain'', PyStr ''rival.com''),
           (''metrics'', PyDict metrics_not_found),
           (''top_keywords'', PyList []),
           (''backlinks'', PyList []),
           (''competitors'',
            PyList [PyDict [(''domain'', PyStr ''rival.com''),
                            (''common_keywords'', PyStr ''10''),
                            (''competition_level'', PyStr ''High'')]]),
           (''top_pages'', PyList [])],
          PyNone)"
  by code_simp

section \<open>The backlinks table\<close>

lemma find_filter:
  "List.find P xs = (case filter P xs of [] \<Rightarrow> None | x # ys \<Rightarrow> Some x)"
  by (induction xs) auto

lemma find_tag_find_all:
  "find_tag name t = (case find_all name t of [] \<Rightarrow> None | x # ys \<Rightarrow> Some x)"
  by (simp add: find_tag_def find_all_def find_filter)

lemma backlinks_source_url_cases:
  "backlinks_source_url col =
     (case find_all ''a'' col of
        [] \<Rightarrow> Inr ''N/A''
      | a # as \<Rightarrow> (case href_of a of None \<Rightarrow> Inl (KeyError ''href'') | Some h \<Rightarrow> Inr (strip h)))"
  by (simp add: backlinks_source_url_def find_tag_find_all getitem_def href_of_def
      split: list.splits option.splits)

lemma backlinks_target_url_cases:
  "backlinks_target_url col =
     (if find_all ''a'' col = [] then Inr ''N/A''
      else (case href_of (last (find_all ''a'' col)) of
              None \<Rightarrow> Inl (KeyError ''href'')
            | Some h \<Rightarrow> Inr (strip h)))"
  by (simp add: backlinks_target_url_def getitem_def href_of_def split: option.splits)

lemma backlinks_body_cases:
  "backlinks_body row acc =
     (let cols = find_all ''td'' row; anchors = find_all ''a'' (cols ! 0)
      in if length cols < 4 then Inr acc
         else if anchors = [] then
           Inr (acc @ [backlink_row ''N/A'' ''N/A'' (strip (get_text (cols ! 1)))
                                   (strip (get_text (cols ! 2)))])
         else (case (href_of (hd anchors), href_of (last anchors)) of
                 (Some s, Some t) \<Rightarrow>
                   Inr (acc @ [backlink_row (strip s) (strip t) (strip (get_text (cols ! 1)))
                                           (strip (get_text (cols ! 2)))])
               | _ \<Rightarrow> Inl (KeyError ''href'')))"
  by (auto simp: backlinks_body_def backlinks_source_url_cases backlinks_target_url_cases
      backlink_row_def col_text_def Let_def split: list.splits option.splits)

lemma backlinks_body_raises:
  "isl (backlinks_body row acc) = href_missing row"
  by (auto simp: backlinks_body_cases href_missing_def Let_def split: option.splits)

lemma backlinks_body_KeyError:
  "backlinks_body row acc = Inl e \<Longrightarrow> e = KeyError ''href''"
  by (auto simp: backlinks_body_cases Let_def split: option.splits if_splits)

lemma backlinks_body_acc:
  "\<not> href_missing row \<Longrightarrow> backlinks_body row acc = Inr (acc @ row_emits row)"
  by (auto simp: row_emits_def backlinks_body_cases href_missing_def Let_def split: option.splits)

lemma for_rows_backlinks:
  "for_rows backlinks_body rows acc =
     (if list_ex href_missing rows then Inl (KeyError ''href'')
      else Inr (acc @ concat (map row_emits rows)))"
proof (induction rows arbitrary: acc)
  case Nil
  show ?case by simp
next
  case (Cons row rows)
  show ?case
  proof (cases "href_missing row")
    case True
    then have "isl (backlinks_body row acc)"
      by (simp add: backlinks_body_raises)
    then obtain e where e: "backlinks_body row acc = Inl e"
      by (cases "backlinks_body row acc") auto
    then have "e = KeyError ''href''"
      by (rule backlinks_body_KeyError)
    with e True show ?thesis by simp
  next
    case False
    then show ?thesis
      by (simp add: backlinks_body_acc Cons.IH)
  qed
qed

text \<open>
  C3, as stated, fails: a row with four columns whose anchor has no \<^verbatim>\<open>href\<close> emits no
  BacklinkRow. The subscript raises \<^verbatim>\<open>KeyError\<close>, which ends the loop and the extraction.
\<close>

theorem backlinks_row_without_href:
  "4 \<le> length (find_all ''td'' nohref_row)
   \<and> find_all ''a'' (find_all ''td'' nohref_row ! 0) \<noteq> []
   \<and> backlinks_body nohref_row [] = Inl (KeyError ''href'')
   \<and> extract_backlinks (Tag ''[document]'' [] nohref_doc) = Inl (KeyError ''href'')"
  by code_simp

text \<open>
  C3, amended. For a row of the backlinks table after the header, with \<open>cols\<close> its
  \<^verbatim>\<open>td\<close> cells and \<open>anchors\<close> the anchors of the first cell:
  \<^item> fewer than four columns: nothing is appended;
  \<^item> at least four columns and no anchor: a BacklinkRow is appended whose two URL fields
    are \<^verbatim>\<open>N/A\<close>;
  \<^item> at least four columns, and the first and the last anchor have an \<^verbatim>\<open>href\<close>: a
    BacklinkRow is appended with the stripped \<^verbatim>\<open>href\<close> of the first anchor as source, of
    the last anchor as target;
  \<^item> otherwise (an anchor that is read has no \<^verbatim>\<open>href\<close>) the row raises \<^verbatim>\<open>KeyError\<close>.

  The anchor text and the follow type are the stripped texts of the second and third
  cell. The list the loop builds is, in order, what each row emits, unless some row
  raises; then the whole extraction of the backlinks raises.
\<close>

theorem backlinks_rows_emitted:
  "backlinks_body row acc =
     (let cols = find_all ''td'' row; anchors = find_all ''a'' (cols ! 0)
      in if length cols < 4 then Inr acc
         else if anchors = [] then
           Inr (acc @ [backlink_row ''N/A'' ''N/A'' (strip (get_text (cols ! 1)))
                                   (strip (get_text (cols ! 2)))])
         else (case (href_of (hd anchors), href_of (last anchors)) of
                 (Some s, Some t) \<Rightarrow>
                   Inr (acc @ [backlink_row (strip s) (strip t) (strip (get_text (cols ! 1)))
                                           (strip (get_text (cols ! 2)))])
               | _ \<Rightarrow> Inl (KeyError ''href'')))
   \<and> extract_backlinks soup =
       (if list_ex href_missing (section_rows soup ''Backlinks'') then Inl (KeyError ''href'')
        else Inr (concat (map row_emits (section_rows soup ''Backlinks''))))"
  by (simp add: backlinks_body_cases [symmetric] extract_backlinks_def for_rows_backlinks)

lemma backlinks_doc_rows:
  "section_rows (Tag ''[document]'' [] backlinks_doc) ''Backlinks''
     = [one_anchor_row, short_row, two_anchor_row, no_anchor_row]"
  by code_simp

lemma backlinks_doc_ok:
  "list_ex href_missing [one_anchor_row, short_row, two_anchor_row, no_anchor_row] = False"
  by code_simp

lemma backlinks_doc_emits:
  "concat (map row_emits [one_anchor_row, short_row, two_anchor_row, no_anchor_row]) =
     [backlink_row ''https://a.example/post'' ''https://a.example/post'' ''click here'' ''follow'',
      backlink_row ''https://a.example/'' ''https://b.example/'' ''text'' ''nofollow'',
      backlink_row ''N/A'' ''N/A'' ''text'' ''follow'']"
  by code_simp

theorem backlinks_rows_emitted_witness:
  "extract_backlinks (Tag ''[document]'' [] backlinks_doc) =
     Inr [backlink_row ''https://a.example/post'' ''https://a.example/post'' ''click here'' ''follow'',
          backlink_row ''https://a.example/'' ''https://b.example/'' ''text'' ''nofollow'',
          backlink_row ''N/A'' ''N/A'' ''text'' ''follow'']"
  using backlinks_rows_emitted [of one_anchor_row "[]" "Tag ''[document]'' [] backlinks_doc"]
  by (simp only: backlinks_doc_rows backlinks_doc_ok backlinks_doc_emits if_False)

text \<open>
  C10. A row with at least four columns and exactly one anchor in its first cell, when it
  emits a BacklinkRow, emits one whose \<^verbatim>\<open>source_url\<close> and \<^verbatim>\<open>target_url\<close> are equal: both
  are the stripped \<^verbatim>\<open>href\<close> of that anchor. The fourth column is not read: any other cell
  in its place gives the same result.
\<close>

theorem single_anchor_source_is_target:
  assumes "4 \<le> length (find_all ''td'' row)"
    and "find_all ''a'' (find_all ''td'' row ! 0) = [a]"
    and "backlinks_body row acc = Inr acc'"
  shows "(\<exists>d url. acc' = acc @ [PyDict d] \<and> href_of a = Some url
            \<and> dict_get d ''source_url'' = Some (PyStr (strip url))
            \<and> dict_get d ''target_url'' = dict_get d ''source_url'')
         \<and> (\<forall>row' c. find_all ''td'' row' = (find_all ''td'' row)[3 := c] \<longrightarrow>
               backlinks_body row' acc = backlinks_body row acc)"
proof -
  have "\<exists>d url. acc' = acc @ [PyDict d] \<and> href_of a = Some url
            \<and> dict_get d ''source_url'' = Some (PyStr (strip url))
            \<and> dict_get d ''target_url'' = dict_get d ''source_url''"
    using assms
    by (auto simp: backlinks_body_cases backlink_row_def dict_get_def Let_def
        split: option.splits)
  moreover have "\<forall>row' c. find_all ''td'' row' = (find_all ''td'' row)[3 := c] \<longrightarrow>
               backlinks_body row' acc = backlinks_body row acc"
    by (auto simp: backlinks_body_cases Let_def nth_list_update split: option.splits)
  ultimately show ?thesis
    by blast
qed

lemma one_anchor_row_cols:
  "4 \<le> length (find_all ''td'' one_anchor_row)"
  "find_all ''a'' (find_all ''td'' one_anchor_row ! 0)
     = [Tag ''a'' [(''href'', '' https://a.example/post '')] [NavigableString ''a'']]"
  "backlinks_body one_anchor_row [] =
     Inr [backlink_row ''https://a.example/post'' ''https://a.example/post''
            ''click here'' ''follow'']"
  by code_simp+

theorem single_anchor_source_is_target_witness:
  "4 \<le> length (find_all ''td'' one_anchor_row)
   \<and> find_all ''a'' (find_all ''td'' one_anchor_row ! 0)
       = [Tag ''a'' [(''href'', '' https://a.example/post '')] [NavigableString ''a'']]
   \<and> backlinks_body one_anchor_row [] =
       Inr [backlink_row ''https://a.example/post'' ''https://a.example/post''
              ''click here'' ''follow'']
   \<and> (\<exists>d url. [backlink_row ''https://a.example/post'' ''https://a.example/post''
                  ''click here'' ''follow''] = [] @ [PyDict d]
          \<and> dict_get d ''source_url'' = Some (PyStr (strip url))
          \<and> dict_get d ''target_url'' = dict_get d ''source_url'')"
  using one_anchor_row_cols
    single_anchor_source_is_target [OF one_anchor_row_cols(1) one_anchor_row_cols(2), of "[]"
      "[backlink_row ''https://a.example/post'' ''https://a.example/post'' ''click here'' ''follow'']"]
  by auto

section \<open>Reports and error payloads\<close>

lemma build_result_cases:
  "build_result soup d =
     (if list_ex href_missing (section_rows soup ''Backlinks'') then Inl (KeyError ''href'')
      else Inr [(''domain'', PyStr (fst (extract_competitors soup d))),
                (''metrics'', PyDict (extract_metrics soup)),
                (''top_keywords'', PyList (extract_top_keywords soup)),
                (''backlinks'', PyList (concat (map row_emits (section_rows soup ''Backlinks'')))),
                (''competitors'', PyList (snd (extract_competitors soup d))),
                (''top_pages'', PyList (extract_top_pages soup))])"
  by (simp add: build_result_def extract_backlinks_def for_rows_backlinks Let_def)

lemma build_result_keys:
  "build_result soup d = Inr result \<Longrightarrow> keys result = report_keys \<and> \<not> key_in ''error'' result"
  by (auto simp: build_result_cases keys_def key_in_def report_keys_def split: if_splits)

lemma get_seo_data_try_200:
  assumes "requests_get l (fetch_url domain) = Upstream_response 200 text"
    and "BeautifulSoup l text = Inr soup"
  shows "get_seo_data_try l domain =
           (case build_result soup domain of
              Inl e \<Rightarrow> Inl e
            | Inr result \<Rightarrow> Inr (result, PyNone))"
  by (simp add: get_seo_data_try_def assms)

lemma get_seo_data_200:
  assumes "requests_get l (fetch_url domain) = Upstream_response 200 text"
    and "BeautifulSoup l text = Inr soup"
  shows "get_seo_data l domain =
           (if list_ex href_missing (section_rows soup ''Backlinks'')
            then Inr ([(''error'', PyStr (''An error occurred: '' @ str_exn (KeyError ''href'')))],
                      PyNone)
            else Inr ([(''domain'', PyStr (fst (extract_competitors soup domain))),
                       (''metrics'', PyDict (extract_metrics soup)),
                       (''top_keywords'', PyList (extract_top_keywords soup)),
                       (''backlinks'',
                        PyList (concat (map row_emits (section_rows soup ''Backlinks'')))),
                       (''competitors'', PyList (snd (extract_competitors soup domain))),
                       (''top_pages'', PyList (extract_top_pages soup))],
                      PyNone))"
  by (simp add: get_seo_data_def get_seo_data_try_200 [OF assms] build_result_cases)

lemma get_seo_data_caught:
  "get_seo_data_try l domain = Inl e \<Longrightarrow>
     get_seo_data l domain =
       Inr ([(''error'',
              PyStr ((if is_RequestException e then ''Request failed: '' else ''An error occurred: '')
                     @ str_exn e))],
            PyNone)"
  by (simp add: get_seo_data_def)

lemma extract_metric_misses:
  "find_string ''p'' name soup = None \<Longrightarrow> extract_metric soup name = ''Not Found''"
  "find_string ''p'' name soup = Some el \<Longrightarrow> find_next_sibling ''p'' el = None \<Longrightarrow>
     extract_metric soup name = ''Not Found''"
  "find_string ''p'' name soup = Some el \<Longrightarrow> find_next_sibling ''p'' el = Some v \<Longrightarrow>
     find_tag ''a'' v = None \<Longrightarrow> extract_metric soup name = ''Not Found''"
  by (simp_all add: extract_metric_def)

lemma no_anchor_is_NA:
  "find_all ''a'' col = [] \<Longrightarrow>
     backlinks_source_url col = Inr ''N/A'' \<and> backlinks_target_url col = Inr ''N/A''"
  by (simp add: backlinks_source_url_cases backlinks_target_url_cases)

lemma short_rows_omitted:
  "length (find_all ''td'' row) < 4 \<Longrightarrow> backlinks_body row acc = Inr acc"
  "length (find_all ''td'' row) < 3 \<Longrightarrow> top_pages_body row acc = acc"
  "length (find_all ''td'' row) < 3 \<Longrightarrow> competitors_body row st = st"
  "length (find_all ''td'' row) < 8 \<Longrightarrow> top_keywords_body row acc = acc"
  by (simp_all add: backlinks_body_def top_pages_body_def competitors_body_def
      top_keywords_body_def Let_def)

text \<open>
  C2, as stated, fails for a missing attribute: an anchor without \<^verbatim>\<open>href\<close> in the first
  cell of a backlinks row makes \<^verbatim>\<open>get_seo_data\<close> return an error payload.
\<close>

theorem missing_href_is_an_error:
  "get_seo_data (static_lib 200 nohref_doc) ''example.com'' =
     Inr ([(''error'', PyStr (''An error occurred: '' @ [CHR 0x27] @ ''href'' @ [CHR 0x27]))], PyNone)"
  by code_simp

text \<open>
  C2, amended. For every parsed HTML input, a miss of one of the kinds missing label,
  missing sibling, missing anchor and too few columns never makes \<^verbatim>\<open>get_seo_data\<close> return
  an error payload: a missing label, sibling or anchor gives \<^verbatim>\<open>Not Found\<close> for the metric,
  a first cell without an anchor gives \<^verbatim>\<open>N/A\<close> for both URLs, a row with too few columns
  leaves its list as it was, and on a 200 response whose text the parser accepts the
  payload is a report with the six keys whenever no backlinks row that is read has an
  anchor without \<^verbatim>\<open>href\<close>. Every exception raised inside the \<^verbatim>\<open>try\<close> block, by the request,
  by the parser or while the document is read, becomes a payload with the one key
  \<^verbatim>\<open>error\<close>, whose string ends with \<^verbatim>\<open>str(e)\<close>; \<^verbatim>\<open>get_seo_data\<close> always returns a payload and
  raises nothing.
\<close>

theorem misses_and_exceptions:
  "(\<exists>data. get_seo_data l domain = Inr (data, PyNone))
   \<and> (\<forall>e. get_seo_data_try l domain = Inl e \<longrightarrow>
          get_seo_data l domain =
            Inr ([(''error'',
                   PyStr ((if is_RequestException e then ''Request failed: ''
                           else ''An error occurred: '') @ str_exn e))],
                 PyNone))
   \<and> (\<forall>text doc. requests_get l (fetch_url domain) = Upstream_response 200 text
          \<and> BeautifulSoup l text = Inr doc
          \<and> \<not> list_ex href_missing (section_rows doc ''Backlinks'') \<longrightarrow>
          (\<exists>report. get_seo_data l domain = Inr (report, PyNone)
             \<and> keys report = report_keys \<and> \<not> key_in ''error'' report))
   \<and> (find_string ''p'' name soup = None \<longrightarrow> extract_metric soup name = ''Not Found'')
   \<and> (\<forall>el. find_string ''p'' name soup = Some el \<and> find_next_sibling ''p'' el = None \<longrightarrow>
          extract_metric soup name = ''Not Found'')
   \<and> (\<forall>el v. find_string ''p'' name soup = Some el \<and> find_next_sibling ''p'' el = Some v
          \<and> find_tag ''a'' v = None \<longrightarrow> extract_metric soup name = ''Not Found'')
   \<and> (find_all ''a'' col = [] \<longrightarrow>
          backlinks_source_url col = Inr ''N/A'' \<and> backlinks_target_url col = Inr ''N/A'')
   \<and> (length (find_all ''td'' row) < 4 \<longrightarrow> backlinks_body row acc = Inr acc)
   \<and> (length (find_all ''td'' row) < 3 \<longrightarrow>
          top_pages_body row acc = acc \<and> competitors_body row st = st)
   \<and> (length (find_all ''td'' row) < 8 \<longrightarrow> top_keywords_body row acc = acc)"
proof -
  have a: "\<exists>data. get_seo_data l domain = Inr (data, PyNone)"
    by (rule get_seo_data_returns)
  have b: "\<forall>e. get_seo_data_try l domain = Inl e \<longrightarrow>
          get_seo_data l domain =
            Inr ([(''error'',
                   PyStr ((if is_RequestException e then ''Request failed: ''
                           else ''An error occurred: '') @ str_exn e))],
                 PyNone)"
    using get_seo_data_caught by blast
  have c: "\<forall>text doc. requests_get l (fetch_url domain) = Upstream_response 200 text
          \<and> BeautifulSoup l text = Inr doc
          \<and> \<not> list_ex href_missing (section_rows doc ''Backlinks'') \<longrightarrow>
          (\<exists>report. get_seo_data l domain = Inr (report, PyNone)
             \<and> keys report = report_keys \<and> \<not> key_in ''error'' report)"
  proof (intro allI impI)
    fix page doc
    assume h: "requests_get l (fetch_url domain) = Upstream_response 200 page
          \<and> BeautifulSoup l page = Inr doc
          \<and> \<not> list_ex href_missing (section_rows doc ''Backlinks'')"
    then have r: "requests_get l (fetch_url domain) = Upstream_response 200 page"
      and p: "BeautifulSoup l page = Inr doc"
      and m: "\<not> list_ex href_missing (section_rows doc ''Backlinks'')"
      by simp_all
    show "\<exists>report. get_seo_data l domain = Inr (report, PyNone)
             \<and> keys report = report_keys \<and> \<not> key_in ''error'' report"
      by (simp add: get_seo_data_200 [OF r p] m keys_def key_in_def report_keys_def)
  qed
  have d: "find_string ''p'' name soup = None \<longrightarrow> extract_metric soup name = ''Not Found''"
    by (simp add: extract_metric_misses)
  have e: "\<forall>el. find_string ''p'' name soup = Some el \<and> find_next_sibling ''p'' el = None \<longrightarrow>
          extract_metric soup name = ''Not Found''"
    by (simp add: extract_metric_misses)
  have f: "\<forall>el v. find_string ''p'' name soup = Some el \<and> find_next_sibling ''p'' el = Some v
          \<and> find_tag ''a'' v = None \<longrightarrow> extract_metric soup name = ''Not Found''"
    by (simp add: extract_metric_misses)
  have g: "find_all ''a'' col = [] \<longrightarrow>
          backlinks_source_url col = Inr ''N/A'' \<and> backlinks_target_url col = Inr ''N/A''"
    using no_anchor_is_NA by blast
  have h: "length (find_all ''td'' row) < 4 \<longrightarrow> backlinks_body row acc = Inr acc"
    by (simp add: short_rows_omitted)
  have i: "length (find_all ''td'' row) < 3 \<longrightarrow>
          top_pages_body row acc = acc \<and> competitors_body row st = st"
    by (simp add: short_rows_omitted)
  have j: "length (find_all ''td'' row) < 8 \<longrightarrow> top_keywords_body row acc = acc"
    by (simp add: short_rows_omitted)
  show ?thesis
    by (intro conjI) (fact a b c d e f g h i j)+
qed

lemma nohref_doc_try:
  "get_seo_data_try (static_lib 200 nohref_doc) ''example.com'' = Inl (KeyError ''href'')"
  by code_simp

lemma rejecting_lib_try:
  "get_seo_data_try rejecting_lib ''example.com'' = Inl (Exception ''expected name token'')"
  by code_simp

lemma backlinks_doc_no_href_missing:
  "list_ex href_missing (section_rows (Tag ''[document]'' [] backlinks_doc) ''Backlinks'') = False"
  by code_simp

lemma plain_doc_no_visits:
  "find_string ''p'' ''Visits'' (Tag ''[document]'' [] plain_doc) = None"
  by code_simp

lemma short_row_cols: "length (find_all ''td'' short_row) < 4"
  by code_simp

lemma plain_cell_no_anchor: "find_all ''a'' (td ''plain'') = []"
  by code_simp

theorem misses_and_exceptions_witness:
  "(get_seo_data_try (static_lib 200 nohref_doc) ''example.com'' = Inl (KeyError ''href'')
    \<and> get_seo_data (static_lib 200 nohref_doc) ''example.com'' =
        Inr ([(''error'', PyStr (''An error occurred: '' @ str_exn (KeyError ''href'')))], PyNone))
   \<and> (get_seo_data_try rejecting_lib ''example.com'' = Inl (Exception ''expected name token'')
       \<and> get_seo_data rejecting_lib ''example.com'' =
           Inr ([(''error'', PyStr ''An error occurred: expected name token'')], PyNone))
   \<and> (requests_get (static_lib 200 backlinks_doc) (fetch_url ''example.com'')
         = Upstream_response 200 []
       \<and> BeautifulSoup (static_lib 200 backlinks_doc) []
           = Inr (Tag ''[document]'' [] backlinks_doc)
       \<and> \<not> list_ex href_missing
             (section_rows (Tag ''[document]'' [] backlinks_doc) ''Backlinks'')
       \<and> (\<exists>report. get_seo_data (static_lib 200 backlinks_doc) ''example.com''
                       = Inr (report, PyNone)
             \<and> keys report = report_keys \<and> \<not> key_in ''error'' report))
   \<and> (find_string ''p'' ''Visits'' (Tag ''[document]'' [] plain_doc) = None
       \<and> extract_metric (Tag ''[document]'' [] plain_doc) ''Visits'' = ''Not Found'')
   \<and> (find_all ''a'' (td ''plain'') = []
       \<and> backlinks_source_url (td ''plain'') = Inr ''N/A''
       \<and> backlinks_target_url (td ''plain'') = Inr ''N/A'')
   \<and> (length (find_all ''td'' short_row) < 4 \<and> backlinks_body short_row [] = Inr [])"
proof -
  note nohref =
    misses_and_exceptions [where l = "static_lib 200 nohref_doc" and domain = "''example.com''"
      and name = "''Visits''" and soup = "Tag ''[document]'' [] plain_doc"
      and col = "td ''plain''" and row = short_row and acc = "[]"]
  note good =
    misses_and_exceptions [where l = "static_lib 200 backlinks_doc" and domain = "''example.com''"]
  note rejected =
    misses_and_exceptions [where l = rejecting_lib and domain = "''example.com''"]
  have r: "requests_get (static_lib 200 backlinks_doc) (fetch_url ''example.com'')
             = Upstream_response 200 []"
    by simp
  have p: "BeautifulSoup (static_lib 200 backlinks_doc) []
             = Inr (Tag ''[document]'' [] backlinks_doc)"
    by simp
  have m: "\<not> list_ex href_missing
             (section_rows (Tag ''[document]'' [] backlinks_doc) ''Backlinks'')"
    by (simp only: backlinks_doc_no_href_missing simp_thms)
  have w1: "get_seo_data (static_lib 200 nohref_doc) ''example.com'' =
        Inr ([(''error'', PyStr (''An error occurred: '' @ str_exn (KeyError ''href'')))], PyNone)"
    using nohref nohref_doc_try by simp
  have w1': "get_seo_data rejecting_lib ''example.com'' =
           Inr ([(''error'', PyStr ''An error occurred: expected name token'')], PyNone)"
    using rejected rejecting_lib_try by simp
  have w2: "\<exists>report. get_seo_data (static_lib 200 backlinks_doc) ''example.com''
                       = Inr (report, PyNone)
             \<and> keys report = report_keys \<and> \<not> key_in ''error'' report"
    using good [THEN conjunct2, THEN conjunct2, THEN conjunct1, rule_format,
        OF conjI [OF r conjI [OF p m]]] .
  have w3: "extract_metric (Tag ''[document]'' [] plain_doc) ''Visits'' = ''Not Found''"
    using nohref plain_doc_no_visits by blast
  have w4: "backlinks_source_url (td ''plain'') = Inr ''N/A''
       \<and> backlinks_target_url (td ''plain'') = Inr ''N/A''"
    using nohref plain_cell_no_anchor by blast
  have w5: "backlinks_body short_row [] = Inr []"
    using nohref short_row_cols by blast
  show ?thesis
    using nohref_doc_try w1 rejecting_lib_try w1' r p m w2 plain_doc_no_visits w3
      plain_cell_no_anchor w4 short_row_cols w5
    by (intro conjI) (simp_all only: simp_thms)
qed

section \<open>Pages without the labelled sections\<close>

lemma no_labels_metrics:
  "no_metric_labels soup \<Longrightarrow> extract_metrics soup = metrics_not_found"
  by (simp add: no_metric_labels_def metric_names_def extract_metrics_def extract_metric_def
      metrics_not_found_def)

lemma no_sections_rows:
  assumes "no_table_sections soup"
  shows "section_rows soup ''Backlinks'' = []"
    and "section_rows soup ''Top Pages'' = []"
    and "section_rows soup ''Main Organic Competitors'' = []"
    and "extract_top_keywords soup = []"
  using assms by (simp_all add: no_table_sections_def section_rows_def extract_top_keywords_def)

lemma first_element_find:
  "map_option (\<lambda>el. (the_node el, next_siblings el)) (first_element P xs)
     = List.find (\<lambda>e. P (fst e)) xs"
  by (induction xs) auto

lemma extract_metric_read:
  "extract_metric doc name =
     (case List.find (\<lambda>e. is_tag ''p'' (fst e) \<and> tag_string (fst e) = Some name)
             (elements (contents doc)) of
        None \<Rightarrow> ''Not Found''
      | Some e \<Rightarrow>
          (case List.find (is_tag ''p'') (snd e) of
             None \<Rightarrow> ''Not Found''
           | Some v \<Rightarrow>
               (case List.find (is_tag ''a'') (descendants v) of
                  None \<Rightarrow> ''Not Found''
                | Some a \<Rightarrow> strip (get_text a))))"
proof (cases "find_string ''p'' name doc")
  case None
  then have "List.find (\<lambda>e. is_tag ''p'' (fst e) \<and> tag_string (fst e) = Some name)
               (elements (contents doc)) = None"
    unfolding find_string_def
    using first_element_find
      [of "\<lambda>n. is_tag ''p'' n \<and> tag_string n = Some name" "elements (contents doc)"]
    by simp
  with None show ?thesis
    by (simp add: extract_metric_def)
next
  case (Some el)
  then have "List.find (\<lambda>e. is_tag ''p'' (fst e) \<and> tag_string (fst e) = Some name)
               (elements (contents doc)) = Some (the_node el, next_siblings el)"
    unfolding find_string_def
    using first_element_find
      [of "\<lambda>n. is_tag ''p'' n \<and> tag_string n = Some name" "elements (contents doc)"]
    by simp
  with Some show ?thesis
    by (simp add: extract_metric_def find_next_sibling_def find_tag_def split: option.splits)
qed

lemma extract_metrics_fields:
  "extract_metrics doc =
     map (\<lambda>(field, label). (field, PyStr (extract_metric doc label))) metric_fields"
  by (simp add: extract_metrics_def metric_fields_def)

lemma report_metrics:
  assumes "requests_get l (fetch_url d) = Upstream_response 200 text"
    and "BeautifulSoup l text = Inr doc"
    and "get_seo_data l d = Inr (report, PyNone)"
    and "\<not> key_in ''error'' report"
  shows "dict_get report ''metrics'' = Some (PyDict (extract_metrics doc))"
  using assms(3,4)
  by (auto simp: get_seo_data_200 [OF assms(1,2)] dict_get_def key_in_def split: if_splits)

text \<open>
  C4, as stated, fails. A page without any of the nine metric labels can still have a
  keyword table, and then \<^verbatim>\<open>top_keywords\<close> is not empty. And a page that the parser rejects
  has none of the labels either, but the extractor returns an error payload for it and
  the endpoint answers 500.
\<close>

theorem no_labels_but_keywords:
  "no_metric_labels (Tag ''[document]'' [] keywords_doc)
   \<and> get_seo_data (static_lib 200 keywords_doc) ''example.com'' =
       Inr ([(''domain'', PyStr ''example.com''),
             (''metrics'', PyDict metrics_not_found),
             (''top_keywords'',
              PyList [PyDict [(''keyword'', PyStr ''seo''),
                              (''rank'', PyStr ''1''),
                              (''traffic_percentage'', PyStr ''50%''),
                              (''volume'', PyStr ''900''),
                              (''kd_percentage'', PyStr ''40''),
                              (''cpc'', PyStr ''1.2''),
                              (''num_results'', PyStr ''7M''),
                              (''search_trend'', PyStr ''up'')]]),
             (''backlinks'', PyList []),
             (''competitors'', PyList []),
             (''top_pages'', PyList [])],
            PyNone)
   \<and> get_seo_data rejecting_lib ''example.com'' =
       Inr ([(''error'', PyStr ''An error occurred: expected name token'')], PyNone)
   \<and> snd (fetch_seo_data rejecting_lib [(''url'', ''example.com'')]) =
       Inr (Response 500
         (PyDict [(''error'', PyStr ''An error occurred: expected name token'')]))"
  by code_simp

text \<open>
  C4, amended. On a 200 response whose text the parser accepts and whose document has
  none of the nine metric labels, all nine metrics are \<^verbatim>\<open>Not Found\<close>, also in the report
  \<^verbatim>\<open>get_seo_data\<close> returns. When the document has in addition none of the three table
  headings and no keyword table, the extractor returns the report with the given domain
  and four empty collections, and the endpoint answers 200 with it.

  Each metric is read as follows, in every document: the label is the first \<^verbatim>\<open>p\<close> element
  in document order whose string is the metric name; the value tag is the first \<^verbatim>\<open>p\<close>
  among the following siblings of the label; the metric is the stripped text of the
  first anchor inside the value tag; and when the label, the value tag or the anchor is
  missing, the metric is \<^verbatim>\<open>Not Found\<close>. The nine fields of a report are these reads for the
  nine labels.
\<close>

theorem no_labels_not_found:
  assumes "requests_get l (fetch_url domain) = Upstream_response 200 page"
    and "BeautifulSoup l page = Inr soup"
    and "no_metric_labels soup"
  shows "extract_metrics soup = metrics_not_found
         \<and> (\<forall>report. get_seo_data l domain = Inr (report, PyNone) \<and> \<not> key_in ''error'' report \<longrightarrow>
                dict_get report ''metrics'' = Some (PyDict metrics_not_found))
         \<and> (no_table_sections soup \<longrightarrow>
              get_seo_data l domain =
                Inr ([(''domain'', PyStr domain),
                      (''metrics'', PyDict metrics_not_found),
                      (''top_keywords'', PyList []),
                      (''backlinks'', PyList []),
                      (''competitors'', PyList []),
                      (''top_pages'', PyList [])],
                     PyNone)
              \<and> (\<forall>args url.
                    args_get args ''url'' [] = url \<and> url \<noteq> []
                    \<and> normalize_domain (check_bracketed_host l) url = Inr domain \<longrightarrow>
                    snd (fetch_seo_data l args) =
                      Inr (Response 200
                        (PyDict [(''domain'', PyStr domain),
                                 (''metrics'', PyDict metrics_not_found),
                                 (''top_keywords'', PyList []),
                                 (''backlinks'', PyList []),
                                 (''competitors'', PyList []),
                                 (''top_pages'', PyList [])]))))
         \<and> (\<forall>doc name.
               extract_metric doc name =
                 (case List.find (\<lambda>e. is_tag ''p'' (fst e) \<and> tag_string (fst e) = Some name)
                         (elements (contents doc)) of
                    None \<Rightarrow> ''Not Found''
                  | Some e \<Rightarrow>
                      (case List.find (is_tag ''p'') (snd e) of
                         None \<Rightarrow> ''Not Found''
                       | Some v \<Rightarrow>
                           (case List.find (is_tag ''a'') (descendants v) of
                              None \<Rightarrow> ''Not Found''
                            | Some a \<Rightarrow> strip (get_text a)))))
         \<and> (\<forall>doc. extract_metrics doc =
               map (\<lambda>(field, label). (field, PyStr (extract_metric doc label))) metric_fields)
         \<and> (\<forall>l' d' text doc report.
               requests_get l' (fetch_url d') = Upstream_response 200 text
               \<and> BeautifulSoup l' text = Inr doc
               \<and> get_seo_data l' d' = Inr (report, PyNone) \<and> \<not> key_in ''error'' report \<longrightarrow>
               dict_get report ''metrics'' = Some (PyDict (extract_metrics doc)))"
proof -
  have m: "extract_metrics soup = metrics_not_found"
    using assms(3) by (rule no_labels_metrics)
  note g = get_seo_data_200 [OF assms(1) assms(2)]
  have a: "\<forall>report. get_seo_data l domain = Inr (report, PyNone) \<and> \<not> key_in ''error'' report \<longrightarrow>
                dict_get report ''metrics'' = Some (PyDict metrics_not_found)"
    using report_metrics [OF assms(1) assms(2)] by (simp add: m)
  have b: "get_seo_data l domain =
                Inr ([(''domain'', PyStr domain),
                      (''metrics'', PyDict metrics_not_found),
                      (''top_keywords'', PyList []),
                      (''backlinks'', PyList []),
                      (''competitors'', PyList []),
                      (''top_pages'', PyList [])],
                     PyNone)"
    if "no_table_sections soup"
    using no_sections_rows [OF that]
    by (simp add: g m extract_competitors_def extract_top_pages_def)
  have c: "\<forall>args url.
                    args_get args ''url'' [] = url \<and> url \<noteq> []
                    \<and> normalize_domain (check_bracketed_host l) url = Inr domain \<longrightarrow>
                    snd (fetch_seo_data l args) =
                      Inr (Response 200
                        (PyDict [(''domain'', PyStr domain),
                                 (''metrics'', PyDict metrics_not_found),
                                 (''top_keywords'', PyList []),
                                 (''backlinks'', PyList []),
                                 (''competitors'', PyList []),
                                 (''top_pages'', PyList [])]))"
    if "no_table_sections soup"
    by (simp add: fetch_seo_data_def Let_def b [OF that] key_in_def)
  have bc: "no_table_sections soup \<longrightarrow>
              get_seo_data l domain =
                Inr ([(''domain'', PyStr domain),
                      (''metrics'', PyDict metrics_not_found),
                      (''top_keywords'', PyList []),
                      (''backlinks'', PyList []),
                      (''competitors'', PyList []),
                      (''top_pages'', PyList [])],
                     PyNone)
              \<and> (\<forall>args url.
                    args_get args ''url'' [] = url \<and> url \<noteq> []
                    \<and> normalize_domain (check_bracketed_host l) url = Inr domain \<longrightarrow>
                    snd (fetch_seo_data l args) =
                      Inr (Response 200
                        (PyDict [(''domain'', PyStr domain),
                                 (''metrics'', PyDict metrics_not_found),
                                 (''top_keywords'', PyList []),
                                 (''backlinks'', PyList []),
                                 (''competitors'', PyList []),
                                 (''top_pages'', PyList [])])))"
    using b c by (intro impI conjI) assumption+
  have d: "\<forall>doc name.
               extract_metric doc name =
                 (case List.find (\<lambda>e. is_tag ''p'' (fst e) \<and> tag_string (fst e) = Some name)
                         (elements (contents doc)) of
                    None \<Rightarrow> ''Not Found''
                  | Some e \<Rightarrow>
                      (case List.find (is_tag ''p'') (snd e) of
                         None \<Rightarrow> ''Not Found''
                       | Some v \<Rightarrow>
                           (case List.find (is_tag ''a'') (descendants v) of
                              None \<Rightarrow> ''Not Found''
                            | Some a \<Rightarrow> strip (get_text a))))"
    using extract_metric_read by (intro allI)
  have e: "\<forall>doc. extract_metrics doc =
               map (\<lambda>(field, label). (field, PyStr (extract_metric doc label))) metric_fields"
    using extract_metrics_fields by (intro allI)
  have f: "\<forall>l' d' text doc report.
               requests_get l' (fetch_url d') = Upstream_response 200 text
               \<and> BeautifulSoup l' text = Inr doc
               \<and> get_seo_data l' d' = Inr (report, PyNone) \<and> \<not> key_in ''error'' report \<longrightarrow>
               dict_get report ''metrics'' = Some (PyDict (extract_metrics doc))"
    using report_metrics by (intro allI impI) (elim conjE)
  show ?thesis
    by (intro conjI) (fact m a bc d e f)+
qed

lemma plain_doc_facts:
  "no_metric_labels (Tag ''[document]'' [] plain_doc)"
  "no_table_sections (Tag ''[document]'' [] plain_doc)"
  by code_simp+

lemma metric_doc_visits:
  "(case List.find (\<lambda>e. is_tag ''p'' (fst e) \<and> tag_string (fst e) = Some ''Visits'')
           (elements (contents (Tag ''[document]'' [] metric_doc))) of
      None \<Rightarrow> ''Not Found''
    | Some e \<Rightarrow>
        (case List.find (is_tag ''p'') (snd e) of
           None \<Rightarrow> ''Not Found''
         | Some v \<Rightarrow>
             (case List.find (is_tag ''a'') (descendants v) of
                None \<Rightarrow> ''Not Found''
              | Some a \<Rightarrow> strip (get_text a)))) = ''1.2M''"
  by code_simp

lemma metric_doc_report:
  "get_seo_data (static_lib 200 metric_doc) ''example.com'' =
     Inr ([(''domain'', PyStr ''example.com''),
           (''metrics'',
            PyDict [(''organic_traffic'', PyStr ''Not Found''),
                    (''traffic_value'', PyStr ''Not Found''),
                    (''authority_score'', PyStr ''Not Found''),
                    (''visits'', PyStr ''1.2M''),
                    (''pages_per_visit'', PyStr ''Not Found''),
                    (''avg_visit_duration'', PyStr ''Not Found''),
                    (''bounce_rate'', PyStr ''Not Found''),
                    (''total_referring_domains'', PyStr ''Not Found''),
                    (''ranking_keywords'', PyStr ''Not Found'')]),
           (''top_keywords'', PyList []),
           (''backlinks'', PyList []),
           (''competitors'', PyList []),
           (''top_pages'', PyList [])],
          PyNone)"
  by code_simp

theorem no_labels_not_found_witness:
  "requests_get (static_lib 200 plain_doc) (fetch_url ''example.com'') = Upstream_response 200 []
   \<and> BeautifulSoup (static_lib 200 plain_doc) [] = Inr (Tag ''[document]'' [] plain_doc)
   \<and> no_metric_labels (Tag ''[document]'' [] plain_doc)
   \<and> no_table_sections (Tag ''[document]'' [] plain_doc)
   \<and> get_seo_data (static_lib 200 plain_doc) ''example.com'' =
       Inr ([(''domain'', PyStr ''example.com''),
             (''metrics'', PyDict metrics_not_found),
             (''top_keywords'', PyList []),
             (''backlinks'', PyList []),
             (''competitors'', PyList []),
             (''top_pages'', PyList [])],
            PyNone)
   \<and> snd (fetch_seo_data (static_lib 200 plain_doc) [(''url'', ''www.example.com'')]) =
       Inr (Response 200
         (PyDict [(''domain'', PyStr ''example.com''),
                  (''metrics'', PyDict metrics_not_found),
                  (''top_keywords'', PyList []),
                  (''backlinks'', PyList []),
                  (''competitors'', PyList []),
                  (''top_pages'', PyList [])]))
   \<and> extract_metric (Tag ''[document]'' [] metric_doc) ''Visits'' = ''1.2M''
   \<and> PyDict (extract_metrics (Tag ''[document]'' [] metric_doc)) =
       PyDict [(''organic_traffic'', PyStr ''Not Found''),
               (''traffic_value'', PyStr ''Not Found''),
               (''authority_score'', PyStr ''Not Found''),
               (''visits'', PyStr ''1.2M''),
               (''pages_per_visit'', PyStr ''Not Found''),
               (''avg_visit_duration'', PyStr ''Not Found''),
               (''bounce_rate'', PyStr ''Not Found''),
               (''total_referring_domains'', PyStr ''Not Found''),
               (''ranking_keywords'', PyStr ''Not Found'')]"
proof -
  have r: "requests_get (static_lib 200 plain_doc) (fetch_url ''example.com'')
             = Upstream_response 200 []"
    by simp
  have p: "BeautifulSoup (static_lib 200 plain_doc) [] = Inr (Tag ''[document]'' [] plain_doc)"
    by simp
  have u: "args_get [(''url'', ''www.example.com'')] ''url'' [] = ''www.example.com''"
    by (simp add: args_get_def)
  have n: "normalize_domain (check_bracketed_host (static_lib 200 plain_doc)) ''www.example.com''
             = Inr ''example.com''"
    by (simp add: normalize_www_example)
  note t = no_labels_not_found [OF r p plain_doc_facts(1)]
  have g: "get_seo_data (static_lib 200 plain_doc) ''example.com'' =
       Inr ([(''domain'', PyStr ''example.com''),
             (''metrics'', PyDict metrics_not_found),
             (''top_keywords'', PyList []),
             (''backlinks'', PyList []),
             (''competitors'', PyList []),
             (''top_pages'', PyList [])],
            PyNone)"
    using t plain_doc_facts(2) by blast
  have f: "snd (fetch_seo_data (static_lib 200 plain_doc) [(''url'', ''www.example.com'')]) =
       Inr (Response 200
         (PyDict [(''domain'', PyStr ''example.com''),
                  (''metrics'', PyDict metrics_not_found),
                  (''top_keywords'', PyList []),
                  (''backlinks'', PyList []),
                  (''competitors'', PyList []),
                  (''top_pages'', PyList [])]))"
    using t [THEN conjunct2, THEN conjunct2, THEN conjunct1, rule_format,
        OF plain_doc_facts(2), THEN conjunct2, rule_format, OF conjI [OF u conjI [OF _ n]]]
    by simp
  have v: "extract_metric (Tag ''[document]'' [] metric_doc) ''Visits'' = ''1.2M''"
    using t [THEN conjunct2, THEN conjunct2, THEN conjunct2, THEN conjunct1, rule_format,
        of "Tag ''[document]'' [] metric_doc" "''Visits''"]
    by (simp only: metric_doc_visits)
  have rm: "requests_get (static_lib 200 metric_doc) (fetch_url ''example.com'')
             = Upstream_response 200 []"
    by simp
  have pm: "BeautifulSoup (static_lib 200 metric_doc) [] = Inr (Tag ''[document]'' [] metric_doc)"
    by simp
  have km: "\<not> key_in ''error''
              [(''domain'', PyStr ''example.com''),
               (''metrics'',
                PyDict [(''organic_traffic'', PyStr ''Not Found''),
                        (''traffic_value'', PyStr ''Not Found''),
                        (''authority_score'', PyStr ''Not Found''),
                        (''visits'', PyStr ''1.2M''),
                        (''pages_per_visit'', PyStr ''Not Found''),
                        (''avg_visit_duration'', PyStr ''Not Found''),
                        (''bounce_rate'', PyStr ''Not Found''),
                        (''total_referring_domains'', PyStr ''Not Found''),
                        (''ranking_keywords'', PyStr ''Not Found'')]),
               (''top_keywords'', PyList []),
               (''backlinks'', PyList []),
               (''competitors'', PyList []),
               (''top_pages'', PyList [])]"
    by (simp add: key_in_def)
  have ms: "PyDict (extract_metrics (Tag ''[document]'' [] metric_doc)) =
       PyDict [(''organic_traffic'', PyStr ''Not Found''),
               (''traffic_value'', PyStr ''Not Found''),
               (''authority_score'', PyStr ''Not Found''),
               (''visits'', PyStr ''1.2M''),
               (''pages_per_visit'', PyStr ''Not Found''),
               (''avg_visit_duration'', PyStr ''Not Found''),
               (''bounce_rate'', PyStr ''Not Found''),
               (''total_referring_domains'', PyStr ''Not Found''),
               (''ranking_keywords'', PyStr ''Not Found'')]"
    using t [THEN conjunct2, THEN conjunct2, THEN conjunct2, THEN conjunct2, THEN conjunct2,
        rule_format, OF conjI [OF rm conjI [OF pm conjI [OF metric_doc_report km]]]]
    by (simp add: dict_get_def)
  show ?thesis
    by (intro conjI) (fact r p plain_doc_facts g f v ms)+
qed

section \<open>The dispatch of the endpoint\<close>

text \<open>
  C9. A result that \<^verbatim>\<open>get_seo_data\<close> builds has exactly the six keys of a report and no key
  \<^verbatim>\<open>error\<close>. \<^verbatim>\<open>get_seo_data\<close> returns such a report when the extractor succeeds, and a
  payload whose only key is \<^verbatim>\<open>error\<close> when it fails; so the endpoint, for a request that
  reaches the extractor, answers 500 if and only if the extractor failed, and 200
  otherwise, with the payload as body.
\<close>

theorem dispatch_is_exact:
  "(\<forall>soup d result. build_result soup d = Inr result \<longrightarrow>
       keys result = report_keys \<and> \<not> key_in ''error'' result)
   \<and> (\<exists>data. get_seo_data l domain = Inr (data, PyNone)
         \<and> (if extractor_succeeds l domain
             then keys data = report_keys \<and> \<not> key_in ''error'' data
             else keys data = [''error''])
         \<and> (\<forall>args url.
               args_get args ''url'' [] = url \<and> url \<noteq> []
               \<and> normalize_domain (check_bracketed_host l) url = Inr domain \<longrightarrow>
               snd (fetch_seo_data l args) =
                 Inr (Response (if extractor_succeeds l domain then 200 else 500) (PyDict data))))"
proof -
  have k: "\<forall>soup d result. build_result soup d = Inr result \<longrightarrow>
       keys result = report_keys \<and> \<not> key_in ''error'' result"
    using build_result_keys by blast
  obtain data where d: "get_seo_data l domain = Inr (data, PyNone)"
    using get_seo_data_returns by blast
  have s: "if extractor_succeeds l domain
           then keys data = report_keys \<and> \<not> key_in ''error'' data
           else keys data = [''error'']"
  proof (cases "requests_get l (fetch_url domain)")
    case (Upstream_raises e)
    with d show ?thesis
      by (auto simp: extractor_succeeds_def get_seo_data_def get_seo_data_try_def keys_def
          split: if_splits)
  next
    case (Upstream_response code page)
    show ?thesis
    proof (cases "code = 200")
      case False
      with d Upstream_response show ?thesis
        by (auto simp: extractor_succeeds_def get_seo_data_def get_seo_data_try_def keys_def)
    next
      case True
      with Upstream_response
      have r: "requests_get l (fetch_url domain) = Upstream_response 200 page"
        by simp
      show ?thesis
      proof (cases "BeautifulSoup l page")
        case (Inl e)
        with d r show ?thesis
          by (auto simp: extractor_succeeds_def get_seo_data_def get_seo_data_try_def keys_def
              split: if_splits)
      next
        case (Inr soup)
        have "extractor_succeeds l domain = (\<not> isl (build_result soup domain))"
          by (simp add: extractor_succeeds_def r Inr)
        then show ?thesis
          using d build_result_keys [of soup domain]
          by (cases "build_result soup domain")
             (auto simp: get_seo_data_def get_seo_data_try_200 [OF r Inr] keys_def
               split: if_splits)
      qed
    qed
  qed
  have e: "key_in ''error'' data = (\<not> extractor_succeeds l domain)"
    using s by (auto simp: key_in_def keys_def split: if_splits)
  have f: "\<forall>args url.
               args_get args ''url'' [] = url \<and> url \<noteq> []
               \<and> normalize_domain (check_bracketed_host l) url = Inr domain \<longrightarrow>
               snd (fetch_seo_data l args) =
                 Inr (Response (if extractor_succeeds l domain then 200 else 500) (PyDict data))"
    by (simp add: fetch_seo_data_def Let_def d e)
  show ?thesis
    using k d s f by blast
qed

lemma plain_doc_succeeds: "extractor_succeeds (static_lib 200 plain_doc) ''example.com''"
  by code_simp

lemma nohref_doc_fails: "\<not> extractor_succeeds (static_lib 200 nohref_doc) ''example.com''"
  by code_simp

lemma plain_doc_report:
  "get_seo_data (static_lib 200 plain_doc) ''example.com'' =
     Inr ([(''domain'', PyStr ''example.com''),
           (''metrics'', PyDict metrics_not_found),
           (''top_keywords'', PyList []),
           (''backlinks'', PyList []),
           (''competitors'', PyList []),
           (''top_pages'', PyList [])],
          PyNone)"
  by code_simp

lemma nohref_doc_payload:
  "get_seo_data (static_lib 200 nohref_doc) ''example.com'' =
     Inr ([(''error'', PyStr (''An error occurred: '' @ [CHR 0x27] @ ''href'' @ [CHR 0x27]))], PyNone)"
  by code_simp

theorem dispatch_is_exact_witness:
  "extractor_succeeds (static_lib 200 plain_doc) ''example.com''
   \<and> snd (fetch_seo_data (static_lib 200 plain_doc) [(''url'', ''www.example.com'')]) =
       Inr (Response 200
         (PyDict [(''domain'', PyStr ''example.com''),
                  (''metrics'', PyDict metrics_not_found),
                  (''top_keywords'', PyList []),
                  (''backlinks'', PyList []),
                  (''competitors'', PyList []),
                  (''top_pages'', PyList [])]))
   \<and> \<not> extractor_succeeds (static_lib 200 nohref_doc) ''example.com''
   \<and> snd (fetch_seo_data (static_lib 200 nohref_doc) [(''url'', ''www.example.com'')]) =
       Inr (Response 500
         (PyDict [(''error'',
                   PyStr (''An error occurred: '' @ [CHR 0x27] @ ''href'' @ [CHR 0x27]))]))"
proof -
  have u: "args_get [(''url'', ''www.example.com'')] ''url'' [] = ''www.example.com''"
    by (simp add: args_get_def)
  have n: "normalize_domain (check_bracketed_host (static_lib c doc)) ''www.example.com''
             = Inr ''example.com''" for c doc
    by (simp add: normalize_www_example)
  have a: "snd (fetch_seo_data (static_lib 200 plain_doc) [(''url'', ''www.example.com'')]) =
       Inr (Response 200
         (PyDict [(''domain'', PyStr ''example.com''),
                  (''metrics'', PyDict metrics_not_found),
                  (''top_keywords'', PyList []),
                  (''backlinks'', PyList []),
                  (''competitors'', PyList []),
                  (''top_pages'', PyList [])]))"
    using dispatch_is_exact [of "static_lib 200 plain_doc" "''example.com''"]
      u n plain_doc_succeeds plain_doc_report
    by auto
  have b: "snd (fetch_seo_data (static_lib 200 nohref_doc) [(''url'', ''www.example.com'')]) =
       Inr (Response 500
         (PyDict [(''error'',
                   PyStr (''An error occurred: '' @ [CHR 0x27] @ ''href'' @ [CHR 0x27]))]))"
    using dispatch_is_exact [of "static_lib 200 nohref_doc" "''example.com''"]
      u n nohref_doc_fails nohref_doc_payload
    by auto
  show ?thesis
    using a b plain_doc_succeeds nohref_doc_fails by blast
qed

end
